theory Spec2Isabelle
  imports Main "HOL-Library.Word"
begin

section \<open>The ABF/ABL reader of iris-abf\<close>

text \<open>
  A shallow embedding of \<^verbatim>\<open>src/iris/io/plugins/abf.py\<close>: the class \<^verbatim>\<open>ABFField\<close>
  (constructor, lazy attribute access, \<^verbatim>\<open>_read\<close>, \<^verbatim>\<open>to_cube\<close>) and the generator
  \<^verbatim>\<open>load_cubes\<close>.

  Conventions.
  \<^item> A Python \<^verbatim>\<open>str\<close> is a \<open>string\<close>; a character stands for the code point of the
    same number, so the model covers the code points below 256.
  \<^item> A raised exception is the left injection of a sum; the object a method mutates is
    returned next to the result, also when the method raises, since the attributes
    assigned before the exception stay assigned.
  \<^item> The file system is a map from paths to file contents; paths follow the POSIX
    rules of \<^verbatim>\<open>os.path\<close>.
\<close>

subsection \<open>Exceptions\<close>

datatype error =
    ValueError
  | KeyError
  | AttributeError
  | TypeError
  | FileNotFoundError
  | TranslationError string

subsection \<open>Module constants\<close>

definition X_SIZE :: nat where
  "X_SIZE = 4320"

definition Y_SIZE :: nat where
  "Y_SIZE = 2160"

text \<open>The dictionary \<^verbatim>\<open>month_numbers\<close>, in the order of the source.\<close>

definition month_numbers :: "string \<rightharpoonup> int" where
  "month_numbers = map_of
     [(''jan'', 1), (''feb'', 2), (''mar'', 3), (''apr'', 4), (''may'', 5), (''jun'', 6),
      (''jul'', 7), (''aug'', 8), (''sep'', 9), (''oct'', 10), (''nov'', 11), (''dec'', 12)]"

subsection \<open>Python built-ins used by the module\<close>

text \<open>The slice \<^verbatim>\<open>s[i:j]\<close> for \<open>0 \<le> i \<le> j\<close>: it never raises, it is cut at the end of \<open>s\<close>.\<close>

definition py_slice :: "nat \<Rightarrow> nat \<Rightarrow> 'a list \<Rightarrow> 'a list" where
  "py_slice i j s = take (j - i) (drop i s)"

text \<open>\<^verbatim>\<open>os.path.basename\<close> (posixpath): what follows the last \<^verbatim>\<open>/\<close>.\<close>

definition basename :: "string \<Rightarrow> string" where
  "basename p = rev (takeWhile (\<lambda>c. c \<noteq> CHR ''/'') (rev p))"

text \<open>
  \<^verbatim>\<open>int(s)\<close> in base 10: white space is stripped at both ends, one sign is allowed,
  then come decimal digits, where single underscores may stand between two digits.
  Anything else raises \<^verbatim>\<open>ValueError\<close>. The white space that \<^verbatim>\<open>int\<close> strips is, below 256,
  the code points 9 to 13, 32, 133 and 160; the separators 28 to 31 are not stripped.
\<close>

definition is_space :: "char \<Rightarrow> bool" where
  "is_space c = (let n = (of_char c :: nat)
                 in (9 \<le> n \<and> n \<le> 13) \<or> n = 32 \<or> n = 133 \<or> n = 160)"

definition is_digit :: "char \<Rightarrow> bool" where
  "is_digit c = (let n = (of_char c :: nat) in 48 \<le> n \<and> n \<le> 57)"

definition digit_value :: "char \<Rightarrow> int" where
  "digit_value c = int (of_char c) - 48"

definition strip :: "string \<Rightarrow> string" where
  "strip s = rev (dropWhile is_space (rev (dropWhile is_space s)))"

fun parse_digits :: "int \<Rightarrow> bool \<Rightarrow> string \<Rightarrow> int option" where
  "parse_digits acc after_digit [] = (if after_digit then Some acc else None)"
| "parse_digits acc after_digit (c # cs) =
     (if is_digit c then parse_digits (10 * acc + digit_value c) True cs
      else if c = CHR ''_'' \<and> after_digit then parse_digits acc False cs
      else None)"

definition py_int :: "string \<Rightarrow> error + int" where
  "py_int s =
     (case strip s of
        [] \<Rightarrow> Inl ValueError
      | c # cs \<Rightarrow>
          (if c = CHR ''-'' then
             (case parse_digits 0 False cs of None \<Rightarrow> Inl ValueError | Some n \<Rightarrow> Inr (- n))
           else if c = CHR ''+'' then
             (case parse_digits 0 False cs of None \<Rightarrow> Inl ValueError | Some n \<Rightarrow> Inr n)
           else
             (case parse_digits 0 False (c # cs) of None \<Rightarrow> Inl ValueError | Some n \<Rightarrow> Inr n)))"

text \<open>
  \<^verbatim>\<open>str.lower\<close> on the code points below 256: the letters A to Z, and the capital
  letters of Latin-1 (192 to 222 without the multiplication sign 215), move up by 32.
\<close>

definition lower_char :: "char \<Rightarrow> char" where
  "lower_char c =
     (let n = (of_char c :: nat)
      in if (65 \<le> n \<and> n \<le> 90) \<or> (192 \<le> n \<and> n \<le> 222 \<and> n \<noteq> 215)
         then char_of (n + 32) else c)"

definition lower :: "string \<Rightarrow> string" where
  "lower s = map lower_char s"

subsection \<open>Arrays\<close>

text \<open>
  An unsigned byte is an \<open>8 word\<close>. A one-dimensional array is a list, a two-dimensional
  one the list of its rows. A masked array carries the values, the mask and the fill
  value.
\<close>

type_synonym u8 = "8 word"

type_synonym filesystem = "string \<rightharpoonup> u8 list"

record masked_array =
  ma_data :: "u8 list list"
  ma_mask :: "bool list list"
  fill_value :: int

definition shape :: "'a list list \<Rightarrow> nat \<times> nat" where
  "shape rows = (length rows, (case rows of [] \<Rightarrow> 0 | r # _ \<Rightarrow> length r))"

text \<open>
  \<^verbatim>\<open>np.fromfile(path, dtype=">u1")\<close>: all the bytes of the file, one item each; a missing
  file raises.
\<close>

definition np_fromfile :: "filesystem \<Rightarrow> string \<Rightarrow> error + u8 list" where
  "np_fromfile fs path = (case fs path of None \<Rightarrow> Inl FileNotFoundError | Some bytes \<Rightarrow> Inr bytes)"

text \<open>
  \<^verbatim>\<open>a.reshape(n, m)\<close> of a one-dimensional array, in C order: row \<open>i\<close> holds the items
  \<open>i * m\<close> to \<open>i * m + m - 1\<close>. It raises \<^verbatim>\<open>ValueError\<close> unless the array has exactly
  \<open>n * m\<close> items.
\<close>

definition reshape :: "'a list \<Rightarrow> nat \<Rightarrow> nat \<Rightarrow> error + 'a list list" where
  "reshape a n m =
     (if length a = n * m then Inr (map (\<lambda>i. take m (drop (i * m) a)) [0..<n])
      else Inl ValueError)"

text \<open>\<^verbatim>\<open>a.transpose()\<close> of a two-dimensional array: row \<open>j\<close> is column \<open>j\<close> of \<open>a\<close>.\<close>

definition transpose_2d :: "'a list list \<Rightarrow> 'a list list" where
  "transpose_2d rows =
     (case rows of
        [] \<Rightarrow> []
      | r # _ \<Rightarrow> map (\<lambda>j. map (\<lambda>row. row ! j) rows) [0..<length r])"

text \<open>\<^verbatim>\<open>a[::-1]\<close>: the rows in reverse order.\<close>

definition flip_rows :: "'a list list \<Rightarrow> 'a list list" where
  "flip_rows rows = rev rows"

text \<open>
  \<^verbatim>\<open>ma.masked_greater(a, v)\<close>: the mask is set where the value is greater than \<open>v\<close>. The
  fill value of the new masked array is numpy's default for integers, 999999.
\<close>

definition masked_greater :: "u8 list list \<Rightarrow> u8 \<Rightarrow> masked_array" where
  "masked_greater a v =
     \<lparr>ma_data = a, ma_mask = map (map (\<lambda>x. v < x)) a, fill_value = 999999\<rparr>"

subsection \<open>The class ABFField\<close>

text \<open>
  The attribute \<^verbatim>\<open>month\<close> first holds the three characters of the file name and then
  the number of the month.
\<close>

datatype month_attr = Token string | Number int

text \<open>
  The instance dictionary: \<^verbatim>\<open>_filename\<close> is set by the constructor, the other
  attributes are absent (\<open>None\<close>) until \<^verbatim>\<open>_read\<close> assigns them.
\<close>

record ABFField =
  filename :: string
  version :: "int option"
  year :: "int option"
  month :: "month_attr option"
  period :: "string option"
  format :: "string option"
  data :: "masked_array option"

definition ABFField_init :: "string \<Rightarrow> error + ABFField" where
  "ABFField_init path =
     (if length (basename path) \<noteq> 24 then Inl ValueError
      else Inr \<lparr>filename = path, version = None, year = None, month = None,
                period = None, format = None, data = None\<rparr>)"

definition ABFField_read :: "filesystem \<Rightarrow> ABFField \<Rightarrow> (error + unit) \<times> ABFField" where
  "ABFField_read fs self =
     (let b = basename (filename self) in
      case py_int (py_slice 9 11 b) of
        Inl e \<Rightarrow> (Inl e, self)
      | Inr v \<Rightarrow>
     (let self1 = self\<lparr>version := Some v\<rparr> in
      case py_int (py_slice 12 16 b) of
        Inl e \<Rightarrow> (Inl e, self1)
      | Inr y \<Rightarrow>
     (let self2 = self1\<lparr>year := Some y, month := Some (Token (py_slice 16 19 b)),
                         period := Some (py_slice 19 20 b), format := Some (py_slice 21 24 b)\<rparr> in
      case month_numbers (py_slice 16 19 b) of
        None \<Rightarrow> (Inl KeyError, self2)
      | Some m \<Rightarrow>
     (let self3 = self2\<lparr>month := Some (Number m)\<rparr> in
      case np_fromfile fs (filename self3) of
        Inl e \<Rightarrow> (Inl e, self3)
      | Inr bytes \<Rightarrow>
     (case reshape bytes X_SIZE Y_SIZE of
        Inl e \<Rightarrow> (Inl e, self3)
      | Inr a \<Rightarrow>
          (Inr (),
           self3\<lparr>data := Some ((masked_greater (flip_rows (transpose_2d a)) 100)
                                  \<lparr>fill_value := 255\<rparr>)\<rparr>))))))"

text \<open>
  Attribute access. Python looks an attribute up in the instance dictionary and calls
  \<^verbatim>\<open>__getattr__\<close> only when it is absent. \<^verbatim>\<open>__getattr__\<close> calls \<^verbatim>\<open>_read\<close> for the key
  \<^verbatim>\<open>data\<close> alone; for any other absent key it raises \<^verbatim>\<open>AttributeError\<close>.
\<close>

definition getattr_data :: "filesystem \<Rightarrow> ABFField \<Rightarrow> (error + masked_array) \<times> ABFField" where
  "getattr_data fs self =
     (case data self of
        Some d \<Rightarrow> (Inr d, self)
      | None \<Rightarrow>
          (case ABFField_read fs self of
             (Inl e, self') \<Rightarrow> (Inl e, self')
           | (Inr _, self') \<Rightarrow>
               (case data self' of
                  Some d \<Rightarrow> (Inr d, self')
                | None \<Rightarrow> (Inl AttributeError, self'))))"

definition getattr :: "(ABFField \<Rightarrow> 'a option) \<Rightarrow> ABFField \<Rightarrow> error + 'a" where
  "getattr key self = (case key self of Some v \<Rightarrow> Inr v | None \<Rightarrow> Inl AttributeError)"

subsection \<open>Standard library: calendar and datetime\<close>

text \<open>
  \<^verbatim>\<open>calendar.isleap\<close>, the table \<^verbatim>\<open>calendar.mdays\<close> and the number of days that
  \<^verbatim>\<open>calendar.monthrange(year, month)\<close> returns as its second component. A month outside
  1 to 12 raises \<^verbatim>\<open>IllegalMonthError\<close>, a \<^verbatim>\<open>ValueError\<close>.
  The year is not checked there: a year that \<^verbatim>\<open>datetime\<close> does not accept is
  refused afterwards, by the constructor of the date.
\<close>

definition isleap :: "int \<Rightarrow> bool" where
  "isleap y = (y mod 4 = 0 \<and> (y mod 100 \<noteq> 0 \<or> y mod 400 = 0))"

definition mdays :: "int list" where
  "mdays = [0, 31, 28, 31, 30, 31, 30, 31, 31, 30, 31, 30, 31]"

definition monthrange_ndays :: "int \<Rightarrow> int \<Rightarrow> error + int" where
  "monthrange_ndays y m =
     (if \<not> (1 \<le> m \<and> m \<le> 12) then Inl ValueError
      else Inr (mdays ! nat m + (if m = 2 \<and> isleap y then 1 else 0)))"

text \<open>
  \<^verbatim>\<open>datetime.date\<close>: the constructor checks its fields, \<^verbatim>\<open>toordinal\<close> counts the days
  of the proleptic Gregorian calendar, with 1 for 1 January of year 1.
\<close>

definition DAYS_IN_MONTH :: "int list" where
  "DAYS_IN_MONTH = [- 1, 31, 28, 31, 30, 31, 30, 31, 31, 30, 31, 30, 31]"

definition DAYS_BEFORE_MONTH :: "int list" where
  "DAYS_BEFORE_MONTH = [- 1, 0, 31, 59, 90, 120, 151, 181, 212, 243, 273, 304, 334]"

definition days_before_year :: "int \<Rightarrow> int" where
  "days_before_year y = (let y1 = y - 1 in y1 * 365 + y1 div 4 - y1 div 100 + y1 div 400)"

definition days_in_month :: "int \<Rightarrow> int \<Rightarrow> int" where
  "days_in_month y m = (if m = 2 \<and> isleap y then 29 else DAYS_IN_MONTH ! nat m)"

definition days_before_month :: "int \<Rightarrow> int \<Rightarrow> int" where
  "days_before_month y m = DAYS_BEFORE_MONTH ! nat m + (if 2 < m \<and> isleap y then 1 else 0)"

definition ymd2ord :: "int \<Rightarrow> int \<Rightarrow> int \<Rightarrow> int" where
  "ymd2ord y m d = days_before_year y + days_before_month y m + d"

record date =
  date_year :: int
  date_month :: int
  date_day :: int

definition date_new :: "int \<Rightarrow> int \<Rightarrow> int \<Rightarrow> error + date" where
  "date_new y m d =
     (if \<not> (1 \<le> y \<and> y \<le> 9999) then Inl ValueError
      else if \<not> (1 \<le> m \<and> m \<le> 12) then Inl ValueError
      else if \<not> (1 \<le> d \<and> d \<le> days_in_month y m) then Inl ValueError
      else Inr \<lparr>date_year = y, date_month = m, date_day = d\<rparr>)"

definition toordinal :: "date \<Rightarrow> int" where
  "toordinal dt = ymd2ord (date_year dt) (date_month dt) (date_day dt)"

text \<open>
  Both library functions need an integer month: the file-name token in its place raises
  \<^verbatim>\<open>TypeError\<close>.
\<close>

definition month_int :: "month_attr \<Rightarrow> error + int" where
  "month_int mm = (case mm of Token _ \<Rightarrow> Inl TypeError | Number m \<Rightarrow> Inr m)"

subsection \<open>The cube\<close>

text \<open>
  The cube and its coordinates belong to the iris framework. The model records what the
  module hands to the framework: the constructor arguments and the calls that attach
  coordinates. The framework's calls are taken to succeed.

  The points of the two spatial axes are arrays of double-precision floats. They are not
  evaluated here: \<open>AxisPoints n k\<close> stands for the array
  \<^verbatim>\<open>np.arange(n) * step + (step / 2) - k\<close> with \<^verbatim>\<open>step = 1.0 / 12.0\<close>. A float
  literal is kept as written: \<open>Decimal m k\<close> stands for m divided by the k-th power of ten.
\<close>

datatype axis_points = AxisPoints nat int

datatype float_literal = Decimal int nat

record GeogCS =
  semi_major_axis :: float_literal
  semi_minor_axis :: float_literal

record DimCoord =
  dc_points :: axis_points
  dc_standard_name :: string
  dc_units :: string
  dc_coord_system :: GeogCS
  dc_has_bounds :: bool

record AuxCoord =
  ac_points :: int
  ac_standard_name :: string
  ac_units :: string
  ac_bounds :: "int list"

record Cube =
  cube_data :: masked_array
  cube_name :: "string option"
  cube_units :: "string option"
  dim_coords :: "(DimCoord \<times> nat) list"
  aux_coords :: "AuxCoord list"
  attributes :: "string \<rightharpoonup> string"

definition Cube_new :: "masked_array \<Rightarrow> Cube" where
  "Cube_new d = \<lparr>cube_data = d, cube_name = None, cube_units = None, dim_coords = [],
                 aux_coords = [], attributes = Map.empty\<rparr>"

definition rename :: "Cube \<Rightarrow> string \<Rightarrow> Cube" where
  "rename cube name = cube\<lparr>cube_name := Some name\<rparr>"

definition guess_bounds :: "DimCoord \<Rightarrow> DimCoord" where
  "guess_bounds coord = coord\<lparr>dc_has_bounds := True\<rparr>"

definition add_dim_coord :: "Cube \<Rightarrow> DimCoord \<Rightarrow> nat \<Rightarrow> Cube" where
  "add_dim_coord cube coord dim = cube\<lparr>dim_coords := dim_coords cube @ [(coord, dim)]\<rparr>"

definition add_aux_coord :: "Cube \<Rightarrow> AuxCoord \<Rightarrow> Cube" where
  "add_aux_coord cube coord = cube\<lparr>aux_coords := aux_coords cube @ [coord]\<rparr>"

subsection \<open>ABFField.to\_cube\<close>

text \<open>The part of \<^verbatim>\<open>to_cube\<close> under the comment \<^verbatim>\<open># Name.\<close>, up to the units.\<close>

definition to_cube_name :: "ABFField \<Rightarrow> Cube \<Rightarrow> error + Cube" where
  "to_cube_name self cube =
     (case getattr format self of
        Inl e \<Rightarrow> Inl e
      | Inr fmt \<Rightarrow>
          if lower fmt = ''abf'' then Inr (rename cube ''FAPAR'')
          else if lower fmt = ''abl'' then Inr (rename cube ''leaf_area_index'')
          else Inl (TranslationError (''Unknown ABF/ABL format: '' @ fmt)))"

text \<open>The part under \<^verbatim>\<open># Grid.\<close>: the two coordinates, with their bounds guessed.\<close>

definition llcs :: GeogCS where
  "llcs = \<lparr>semi_major_axis = Decimal 63781370 1, semi_minor_axis = Decimal 635675231424 5\<rparr>"

definition x_coord :: DimCoord where
  "x_coord = guess_bounds
     \<lparr>dc_points = AxisPoints X_SIZE 180, dc_standard_name = ''longitude'',
      dc_units = ''degrees'', dc_coord_system = llcs, dc_has_bounds = False\<rparr>"

definition y_coord :: DimCoord where
  "y_coord = guess_bounds
     \<lparr>dc_points = AxisPoints Y_SIZE 90, dc_standard_name = ''latitude'',
      dc_units = ''degrees'', dc_coord_system = llcs, dc_has_bounds = False\<rparr>"

text \<open>
  The part under \<^verbatim>\<open># Time.\<close>: the first and the last day of the period, the two dates,
  their ordinals less one, and the coordinate built from them.
\<close>

definition period_days :: "ABFField \<Rightarrow> error + int \<times> int" where
  "period_days self =
     (case getattr period self of
        Inl e \<Rightarrow> Inl e
      | Inr p \<Rightarrow>
          if p = ''a'' then Inr (1, 15)
          else if p = ''b'' then
            (case getattr year self of
               Inl e \<Rightarrow> Inl e
             | Inr y \<Rightarrow>
            (case getattr month self of
               Inl e \<Rightarrow> Inl e
             | Inr mm \<Rightarrow>
            (case month_int mm of
               Inl e \<Rightarrow> Inl e
             | Inr m \<Rightarrow>
            (case monthrange_ndays y m of
               Inl e \<Rightarrow> Inl e
             | Inr n \<Rightarrow> Inr (16, n)))))
          else Inl (TranslationError (''Unknown period: '' @ p)))"

definition field_date :: "ABFField \<Rightarrow> int \<Rightarrow> error + date" where
  "field_date self d =
     (case getattr year self of
        Inl e \<Rightarrow> Inl e
      | Inr y \<Rightarrow>
     (case getattr month self of
        Inl e \<Rightarrow> Inl e
      | Inr mm \<Rightarrow>
     (case month_int mm of
        Inl e \<Rightarrow> Inl e
      | Inr m \<Rightarrow> date_new y m d)))"

definition to_cube_time :: "ABFField \<Rightarrow> error + AuxCoord" where
  "to_cube_time self =
     (case period_days self of
        Inl e \<Rightarrow> Inl e
      | Inr (start_day, end_day) \<Rightarrow>
     (case field_date self start_day of
        Inl e \<Rightarrow> Inl e
      | Inr start_date \<Rightarrow>
     (case field_date self end_day of
        Inl e \<Rightarrow> Inl e
      | Inr end_date \<Rightarrow>
         (let start = toordinal start_date - 1;
              stop = toordinal end_date - 1
          in Inr \<lparr>ac_points = start, ac_standard_name = ''time'',
                  ac_units = ''days since 0001-01-01'', ac_bounds = [start, stop]\<rparr>))))"

definition ABFField_to_cube :: "filesystem \<Rightarrow> ABFField \<Rightarrow> (error + Cube) \<times> ABFField" where
  "ABFField_to_cube fs self0 =
     (case getattr_data fs self0 of
        (Inl e, self) \<Rightarrow> (Inl e, self)
      | (Inr d, self) \<Rightarrow>
     (case to_cube_name self (Cube_new d) of
        Inl e \<Rightarrow> (Inl e, self)
      | Inr cube1 \<Rightarrow>
     (let cube2 = cube1\<lparr>cube_units := Some ''%''\<rparr>;
          cube3 = add_dim_coord cube2 x_coord 1;
          cube4 = add_dim_coord cube3 y_coord 0
      in case to_cube_time self of
           Inl e \<Rightarrow> (Inl e, self)
         | Inr time_coord \<Rightarrow>
             (let cube5 = add_aux_coord cube4 time_coord
              in (Inr (cube5\<lparr>attributes := (attributes cube5)(''source'' \<mapsto> ''Boston University'')\<rparr>),
                  self)))))"

subsection \<open>load\_cubes\<close>

text \<open>
  The argument is one file specification or a list of them. \<^verbatim>\<open>glob.glob\<close> and
  \<^verbatim>\<open>iris.io.run_callback\<close> are not part of the module and are parameters of the model:
  \<open>glob\<close> gives the matching file names in the order of enumeration, \<open>run_callback\<close>
  gives a cube, \<open>None\<close> or an exception. A callback may have effects; they are a state
  that \<open>run_callback\<close> takes and returns.

  The generator is run to its end: the result holds the cubes it yields, in order, the
  exception that ended it, if any, and the last state of the callback.
\<close>

datatype filespecs = Str string | Strs "string list"

type_synonym ('cb, 's) run_callback =
  "'cb \<Rightarrow> Cube \<Rightarrow> ABFField \<Rightarrow> string \<Rightarrow> 's \<Rightarrow> (error + Cube option) \<times> 's"

type_synonym 's generated = "Cube list \<times> error option \<times> 's"

definition yield :: "Cube \<Rightarrow> 's generated \<Rightarrow> 's generated" where
  "yield cube rest = (case rest of (cubes, raised, st) \<Rightarrow> (cube # cubes, raised, st))"

text \<open>The inner loop, over the file names of one specification.\<close>

fun load_filenames ::
  "('cb, 's) run_callback \<Rightarrow> filesystem \<Rightarrow> 'cb option \<Rightarrow> string list \<Rightarrow> 's \<Rightarrow> 's generated"
where
  "load_filenames rc fs callback [] st = ([], None, st)"
| "load_filenames rc fs callback (name # names) st =
     (case ABFField_init name of
        Inl e \<Rightarrow> ([], Some e, st)
      | Inr field0 \<Rightarrow>
     (case ABFField_to_cube fs field0 of
        (Inl e, field) \<Rightarrow> ([], Some e, st)
      | (Inr cube, field) \<Rightarrow>
     (case callback of
        None \<Rightarrow> yield cube (load_filenames rc fs callback names st)
      | Some cb \<Rightarrow>
     (case rc cb cube field name st of
        (Inl e, st1) \<Rightarrow> ([], Some e, st1)
      | (Inr None, st1) \<Rightarrow> load_filenames rc fs callback names st1
      | (Inr (Some cube1), st1) \<Rightarrow> yield cube1 (load_filenames rc fs callback names st1)))))"

text \<open>The outer loop, over the specifications: an exception in the inner loop ends it.\<close>

fun load_filespecs ::
  "(string \<Rightarrow> string list) \<Rightarrow> ('cb, 's) run_callback \<Rightarrow> filesystem \<Rightarrow> 'cb option \<Rightarrow>
   string list \<Rightarrow> 's \<Rightarrow> 's generated"
where
  "load_filespecs glob rc fs callback [] st = ([], None, st)"
| "load_filespecs glob rc fs callback (spec # specs) st =
     (case load_filenames rc fs callback (glob spec) st of
        (cubes, Some e, st1) \<Rightarrow> (cubes, Some e, st1)
      | (cubes, None, st1) \<Rightarrow>
          (case load_filespecs glob rc fs callback specs st1 of
             (cubes2, raised, st2) \<Rightarrow> (cubes @ cubes2, raised, st2)))"

definition load_cubes ::
  "(string \<Rightarrow> string list) \<Rightarrow> ('cb, 's) run_callback \<Rightarrow> filesystem \<Rightarrow> filespecs \<Rightarrow>
   'cb option \<Rightarrow> 's \<Rightarrow> 's generated"
where
  "load_cubes glob rc fs filespecs callback st =
     (let specs = (case filespecs of Str s \<Rightarrow> [s] | Strs ss \<Rightarrow> ss)
      in load_filespecs glob rc fs callback specs st)"

subsection \<open>Notions used to state the properties\<close>

text \<open>
  The bytes 0, 1, 2, ... modulo 256, as \<^verbatim>\<open>np.arange(n, dtype=np.uint8)\<close> gives them in the
  module's tests.
\<close>

definition arange_u8 :: "nat \<Rightarrow> u8 list" where
  "arange_u8 n = map of_nat [0..<n]"

text \<open>
  The three look-ups of \<^verbatim>\<open>_read\<close> that can fail before the file is opened all succeed
  on the base name \<open>b\<close>.
\<close>

definition parses :: "string \<Rightarrow> bool" where
  "parses b = (\<not> isl (py_int (py_slice 9 11 b)) \<and> \<not> isl (py_int (py_slice 12 16 b))
     \<and> month_numbers (py_slice 16 19 b) \<noteq> None)"

text \<open>The object as the constructor leaves it.\<close>

definition new_field :: "string \<Rightarrow> ABFField" where
  "new_field path = \<lparr>filename = path, version = None, year = None, month = None,
                period = None, format = None, data = None\<rparr>"

text \<open>
  The specification names error kinds, the module raises Python exceptions. The kind
  \<open>InvalidFilenameError\<close> of the specification covers a base name of the wrong length
  (\<^verbatim>\<open>ValueError\<close> in the constructor), a field that is not a number (\<^verbatim>\<open>ValueError\<close>
  of \<^verbatim>\<open>int\<close>) and an unknown month (\<^verbatim>\<open>KeyError\<close> of the dictionary).
\<close>

definition InvalidFilenameError :: "error \<Rightarrow> bool" where
  "InvalidFilenameError e = (e = ValueError \<or> e = KeyError)"

text \<open>
  The last day of a month as the Gregorian calendar gives it, written out from the
  specification's words: thirty days for April, June, September and November, 28 or 29
  for February, 31 otherwise.
\<close>

definition last_day_of_month :: "int \<Rightarrow> int \<Rightarrow> int" where
  "last_day_of_month y m =
     (if m = 2 then (if y mod 4 = 0 \<and> (y mod 100 \<noteq> 0 \<or> y mod 400 = 0) then 29 else 28)
      else if m = 4 \<or> m = 6 \<or> m = 9 \<or> m = 11 then 30
      else 31)"

text \<open>What \<^verbatim>\<open>to_cube\<close> computes for a day: the ordinal of \<^verbatim>\<open>datetime\<close> less one.\<close>

definition ordinal_less_one :: "int \<Rightarrow> int \<Rightarrow> int \<Rightarrow> int" where
  "ordinal_less_one y m d = ymd2ord y m d - 1"

text \<open>
  The day count that the properties are stated against is counted, not computed: a year
  has 366 days when it is a leap year of the proleptic Gregorian calendar and 365
  otherwise, and the number of days from 0001-01-01 to a date is the lengths of the years
  before its year, the lengths of the months before its month, and the days before it in
  its month.
\<close>

definition year_length :: "int \<Rightarrow> int" where
  "year_length y = (if y mod 4 = 0 \<and> (y mod 100 \<noteq> 0 \<or> y mod 400 = 0) then 366 else 365)"

definition days_since_epoch :: "int \<Rightarrow> int \<Rightarrow> int \<Rightarrow> int" where
  "days_since_epoch y m d =
     (\<Sum>y' \<leftarrow> [1..y - 1]. year_length y')
   + (\<Sum>m' \<leftarrow> [1..m - 1]. last_day_of_month y m')
   + (d - 1)"

text \<open>
  The scalar time coordinate with a given first and last day: the point is the first
  day, the bounds are both days.
\<close>

definition time_coord :: "int \<Rightarrow> int \<Rightarrow> AuxCoord" where
  "time_coord start stop = \<lparr>ac_points = start, ac_standard_name = ''time'',
      ac_units = ''days since 0001-01-01'', ac_bounds = [start, stop]\<rparr>"

text \<open>
  The decoded field of the module's tests, which set the four attributes that
  \<^verbatim>\<open>to_cube\<close> reads next to some data.
\<close>

definition mock_field :: "string \<Rightarrow> string \<Rightarrow> int \<Rightarrow> int \<Rightarrow> ABFField" where
  "mock_field fmt p y m =
     \<lparr>filename = [], version = None, year = Some y, month = Some (Number m),
      period = Some p, format = Some fmt,
      data = Some \<lparr>ma_data = [], ma_mask = [], fill_value = 255\<rparr>\<rparr>"

text \<open>
  What the loop of \<^verbatim>\<open>load_cubes\<close> does with one file name before any callback: the
  constructor, then \<^verbatim>\<open>to_cube\<close>. \<open>cube_of\<close> and \<open>field_of\<close> name the cube and the field
  of a file that decodes.
\<close>

definition decode :: "filesystem \<Rightarrow> string \<Rightarrow> error + Cube \<times> ABFField" where
  "decode fs name =
     (case ABFField_init name of
        Inl e \<Rightarrow> Inl e
      | Inr field0 \<Rightarrow>
          (case ABFField_to_cube fs field0 of
             (Inl e, field) \<Rightarrow> Inl e
           | (Inr cube, field) \<Rightarrow> Inr (cube, field)))"

definition cube_of :: "filesystem \<Rightarrow> string \<Rightarrow> Cube" where
  "cube_of fs name = fst (projr (decode fs name))"

definition field_of :: "filesystem \<Rightarrow> string \<Rightarrow> ABFField" where
  "field_of fs name = snd (projr (decode fs name))"

text \<open>
  One call per item, in the order of the list, each call taking the state the one
  before it left; the results are collected in the same order.
\<close>

fun call_each :: "('a \<Rightarrow> 's \<Rightarrow> 'r \<times> 's) \<Rightarrow> 'a list \<Rightarrow> 's \<Rightarrow> 'r list \<times> 's" where
  "call_each f [] st = ([], st)"
| "call_each f (x # xs) st =
     (case f x st of (r, st1) \<Rightarrow>
        (case call_each f xs st1 of (rs, st2) \<Rightarrow> (r # rs, st2)))"

text \<open>
  The cubes among the results of the callback, in order: \<open>None\<close> emits nothing, a cube
  is emitted as the callback returned it.
\<close>

fun emitted :: "(error + Cube option) list \<Rightarrow> Cube list" where
  "emitted [] = []"
| "emitted (Inr (Some cube) # rs) = cube # emitted rs"
| "emitted (r # rs) = emitted rs"

text \<open>
  One run of a generator followed by another that starts in the state the first one
  left; an exception in the first ends both.
\<close>

definition gen_then :: "'s generated \<Rightarrow> ('s \<Rightarrow> 's generated) \<Rightarrow> 's generated" where
  "gen_then g k =
     (case g of
        (cubes, Some e, st1) \<Rightarrow> (cubes, Some e, st1)
      | (cubes, None, st1) \<Rightarrow>
          (case k st1 of (cubes2, raised, st2) \<Rightarrow> (cubes @ cubes2, raised, st2)))"

section \<open>Properties\<close>

subsection \<open>Arrays\<close>

lemma reshape_rows:
  assumes "reshape a n m = Inr rows"
  shows "length a = n * m" and "length rows = n"
    and "\<And>i. i < n \<Longrightarrow> length (rows ! i) = m"
    and "\<And>i j. i < n \<Longrightarrow> j < m \<Longrightarrow> rows ! i ! j = a ! (i * m + j)"
proof -
  from assms show len: "length a = n * m"
    by (simp add: reshape_def split: if_splits)
  from assms have rows: "rows = map (\<lambda>i. take m (drop (i * m) a)) [0..<n]"
    by (simp add: reshape_def split: if_splits)
  show "length rows = n" by (simp add: rows)
  { fix i assume i: "i < n"
    then have "i * m + m \<le> n * m"
      by (metis Suc_leI mult_Suc mult_le_mono1 add.commute)
    then show "length (rows ! i) = m" using i len by (simp add: rows)
  }
  { fix i j assume "i < n" "j < m"
    moreover from \<open>i < n\<close> have "i * m + m \<le> n * m"
      by (metis Suc_leI mult_Suc mult_le_mono1 add.commute)
    ultimately show "rows ! i ! j = a ! (i * m + j)" using len by (simp add: rows)
  }
qed

lemma transpose_2d_nth:
  assumes "rows \<noteq> []" and "\<forall>i < length rows. length (rows ! i) = m"
  shows "length (transpose_2d rows) = m"
    and "\<And>j. j < m \<Longrightarrow> length (transpose_2d rows ! j) = length rows"
    and "\<And>i j. j < m \<Longrightarrow> i < length rows \<Longrightarrow> transpose_2d rows ! j ! i = rows ! i ! j"
proof -
  from assms obtain r rs where rs: "rows = r # rs" by (cases rows) auto
  with assms(2) have lr: "length r = m" by auto
  show "length (transpose_2d rows) = m" by (simp add: transpose_2d_def rs lr)
  { fix j assume "j < m"
    then show "length (transpose_2d rows ! j) = length rows"
      by (simp add: transpose_2d_def rs lr) }
  { fix i j assume "j < m" "i < length rows"
    then show "transpose_2d rows ! j ! i = rows ! i ! j"
      using lr by (cases i) (simp_all add: transpose_2d_def rs del: upt_Suc) }
qed

lemma length_arange_u8: "length (arange_u8 n) = n"
  by (simp add: arange_u8_def)

lemma nth_arange_u8: "i < n \<Longrightarrow> arange_u8 n ! i = of_nat i"
  by (simp add: arange_u8_def)

lemma grid_cells:
  assumes a: "reshape bytes n m = Inr a" and n: "0 < n"
    and g: "g = flip_rows (transpose_2d a)"
  shows "length g = m"
    and "\<And>r. r < m \<Longrightarrow> length (g ! r) = n"
    and "\<And>r c. r < m \<Longrightarrow> c < n \<Longrightarrow> g ! r ! c = bytes ! (c * m + (m - 1 - r))"
proof -
  note rs = reshape_rows [OF a]
  from rs(2) n have ne: "a \<noteq> []" by auto
  from rs(2,3) have rect: "\<forall>i < length a. length (a ! i) = m" by simp
  note tr = transpose_2d_nth [OF ne rect]
  show "length g = m" by (simp add: g flip_rows_def tr(1))
  { fix r assume r: "r < m"
    then have "g ! r = transpose_2d a ! (m - 1 - r)"
      by (simp add: g flip_rows_def rev_nth tr(1))
    moreover from r have "m - 1 - r < m" by arith
    ultimately show "length (g ! r) = n" by (simp add: tr(2) rs(2))
  }
  { fix r c assume r: "r < m" and c: "c < n"
    then have "g ! r = transpose_2d a ! (m - 1 - r)"
      by (simp add: g flip_rows_def rev_nth tr(1))
    moreover from r have lt: "m - 1 - r < m" by arith
    ultimately have "g ! r ! c = a ! c ! (m - 1 - r)"
      using c by (simp add: tr(3) rs(2))
    also have "\<dots> = bytes ! (c * m + (m - 1 - r))"
      using c lt by (rule rs(4))
    finally show "g ! r ! c = bytes ! (c * m + (m - 1 - r))" .
  }
qed

lemma reshape_total: "length a = n * m \<Longrightarrow> \<exists>rows. reshape a n m = Inr rows"
  by (simp add: reshape_def)

lemma reshape_fails: "length a \<noteq> n * m \<Longrightarrow> reshape a n m = Inl ValueError"
  by (simp add: reshape_def)

text \<open>What a successful read stores.\<close>

lemma read_result:
  assumes "py_int (py_slice 9 11 (basename (filename self))) = Inr v"
    and "py_int (py_slice 12 16 (basename (filename self))) = Inr y"
    and "month_numbers (py_slice 16 19 (basename (filename self))) = Some m"
    and "fs (filename self) = Some bytes"
    and "reshape bytes X_SIZE Y_SIZE = Inr a"
  shows "ABFField_read fs self =
    (Inr (), self\<lparr>version := Some v, year := Some y, month := Some (Number m),
        period := Some (py_slice 19 20 (basename (filename self))),
        format := Some (py_slice 21 24 (basename (filename self))),
        data := Some ((masked_greater (flip_rows (transpose_2d a)) 100)\<lparr>fill_value := 255\<rparr>)\<rparr>)"
  using assms by (simp add: ABFField_read_def np_fromfile_def Let_def)

lemma masked_cells:
  assumes "g = (masked_greater rows v)\<lparr>fill_value := k\<rparr>"
  shows "ma_data g = rows" and "fill_value g = k" and "length (ma_mask g) = length rows"
    and "\<And>r. r < length rows \<Longrightarrow> length (ma_mask g ! r) = length (rows ! r)"
    and "\<And>r c. r < length rows \<Longrightarrow> c < length (rows ! r) \<Longrightarrow> ma_mask g ! r ! c = (v < rows ! r ! c)"
  by (simp_all add: assms masked_greater_def)

subsection \<open>The grid that \_read decodes\<close>

text \<open>
  Claim C1. When the three look-ups on the base name succeed and the file holds exactly
  4320 * 2160 bytes, \<^verbatim>\<open>_read\<close> returns and stores a masked array of 2160 rows and 4320
  columns with fill value 255. The cell in row \<open>r\<close> and column \<open>c\<close> holds the byte of the
  file at index \<open>c * 2160 + (2159 - r)\<close>, and it is masked exactly when that byte is
  greater than 100.
\<close>

theorem read_grid_cells:
  assumes "parses (basename (filename self))"
    and "fs (filename self) = Some bytes"
    and "length bytes = 4320 * 2160"
  shows "\<exists>self' g. ABFField_read fs self = (Inr (), self') \<and> data self' = Some g
           \<and> shape (ma_data g) = (2160, 4320) \<and> shape (ma_mask g) = (2160, 4320)
           \<and> fill_value g = 255
           \<and> (\<forall>r < 2160. \<forall>c < 4320.
                 ma_data g ! r ! c = bytes ! (c * 2160 + (2159 - r))
                 \<and> ma_mask g ! r ! c = (100 < bytes ! (c * 2160 + (2159 - r))))"
proof -
  let ?b = "basename (filename self)"
  from assms(1) obtain v y m where p: "py_int (py_slice 9 11 ?b) = Inr v"
    "py_int (py_slice 12 16 ?b) = Inr y" "month_numbers (py_slice 16 19 ?b) = Some m"
    by (auto simp: parses_def isl_def) (metis sum.exhaust)
  from assms(3) have "length bytes = X_SIZE * Y_SIZE" by (simp add: X_SIZE_def Y_SIZE_def)
  then obtain a where a: "reshape bytes X_SIZE Y_SIZE = Inr a"
    using reshape_total by blast
  define rows where "rows = flip_rows (transpose_2d a)"
  define g where "g = (masked_greater rows 100)\<lparr>fill_value := 255\<rparr>"
  have X: "0 < X_SIZE" by (simp add: X_SIZE_def)
  note gc = grid_cells [OF a X rows_def]
  note mc = masked_cells [OF g_def]
  have len: "length rows = 2160" using gc(1) by (simp add: Y_SIZE_def)
  have rowlen: "\<And>r. r < 2160 \<Longrightarrow> length (rows ! r) = 4320"
    using gc(2) by (simp add: X_SIZE_def Y_SIZE_def)
  have cell: "\<And>r c. r < 2160 \<Longrightarrow> c < 4320 \<Longrightarrow> rows ! r ! c = bytes ! (c * 2160 + (2159 - r))"
    using gc(3) by (simp add: X_SIZE_def Y_SIZE_def)
  have ne: "rows \<noteq> []" using len by auto
  have hd0: "length (rows ! 0) = 4320" by (rule rowlen) simp
  have sh: "shape rows = (2160, 4320)"
    using len hd0 ne by (cases rows) (simp_all add: shape_def)
  have mne: "ma_mask g \<noteq> []" using mc(3) len by auto
  have "length (ma_mask g ! 0) = 4320" using mc(4) [of 0] len hd0 by simp
  then have shm: "shape (ma_mask g) = (2160, 4320)"
    using mc(3) len mne by (cases "ma_mask g") (simp_all add: shape_def)
  have cells: "\<forall>r < 2160. \<forall>c < 4320.
      ma_data g ! r ! c = bytes ! (c * 2160 + (2159 - r))
      \<and> ma_mask g ! r ! c = (100 < bytes ! (c * 2160 + (2159 - r)))"
    using mc(1) mc(5) len rowlen cell by simp
  have "ABFField_read fs self = (Inr (), self\<lparr>version := Some v, year := Some y,
        month := Some (Number m), period := Some (py_slice 19 20 ?b),
        format := Some (py_slice 21 24 ?b), data := Some g\<rparr>)"
    using p assms(2) a by (simp add: read_result g_def rows_def)
  then show ?thesis using sh shm mc(1,2) cells by auto
qed

text \<open>
  The file name and the bytes of the module's test: cell [0, 4317] is 31, cell [2159, 0]
  is 0 and cell [0, 0] is masked.
\<close>

lemma test_name_parses:
  "basename ''/path/to/my-prefix12-9876marb-abf'' = ''my-prefix12-9876marb-abf''"
  "py_int ''12'' = Inr 12" "py_int ''9876'' = Inr 9876"
  by (simp_all add: basename_def py_int_def strip_def is_space_def is_digit_def digit_value_def)

theorem read_grid_cells_witness:
  "\<exists>self' g. ABFField_read (\<lambda>p. Some (arange_u8 (4320 * 2160)))
        (new_field ''/path/to/my-prefix12-9876marb-abf'') = (Inr (), self')
     \<and> data self' = Some g \<and> shape (ma_data g) = (2160, 4320) \<and> fill_value g = 255
     \<and> ma_data g ! 0 ! 4317 = 31 \<and> ma_data g ! 2159 ! 0 = 0 \<and> ma_mask g ! 0 ! 0"
proof -
  let ?self = "new_field ''/path/to/my-prefix12-9876marb-abf''"
  let ?bytes = "arange_u8 (4320 * 2160)"
  let ?fs = "\<lambda>p::string. Some ?bytes"
  have h1: "parses (basename (filename ?self))"
    by (simp add: new_field_def parses_def test_name_parses py_slice_def month_numbers_def)
  have h2: "?fs (filename ?self) = Some ?bytes" by simp
  have h3: "length ?bytes = 4320 * 2160" by (simp only: length_arange_u8)
  from read_grid_cells [OF h1 h2 h3] obtain self' g where
    r: "ABFField_read ?fs ?self = (Inr (), self')" "data self' = Some g"
      "shape (ma_data g) = (2160, 4320)" "fill_value g = 255"
    and cells: "\<forall>r < 2160. \<forall>c < 4320.
                 ma_data g ! r ! c = ?bytes ! (c * 2160 + (2159 - r))
                 \<and> ma_mask g ! r ! c = (100 < ?bytes ! (c * 2160 + (2159 - r)))"
    by blast
  from cells have c1: "ma_data g ! 0 ! 4317 = ?bytes ! (4317 * 2160 + (2159 - 0))"
    by simp
  from cells have c2: "ma_data g ! 2159 ! 0 = ?bytes ! (0 * 2160 + (2159 - 2159))"
    by simp
  from cells have c3: "ma_mask g ! 0 ! 0 = (100 < ?bytes ! (0 * 2160 + (2159 - 0)))"
    by simp
  have "ma_data g ! 0 ! 4317 = 31" by (simp add: c1 nth_arange_u8)
  moreover have "ma_data g ! 2159 ! 0 = 0" by (simp add: c2 nth_arange_u8)
  moreover have "ma_mask g ! 0 ! 0" by (simp add: c3 nth_arange_u8)
  ultimately show ?thesis using r by blast
qed

text \<open>
  Claim C10. When the file does not hold exactly 4320 * 2160 bytes, be it shorter or
  longer, \<^verbatim>\<open>_read\<close> raises and leaves the attribute \<^verbatim>\<open>data\<close> as it was; the exception
  is \<^verbatim>\<open>ValueError\<close> when the look-ups on the base name succeed. The first access to
  \<^verbatim>\<open>data\<close> on a fresh object then raises as well, and no grid is stored.
\<close>

theorem read_size_exact:
  assumes "fs (filename self) = Some bytes" and "length bytes \<noteq> 4320 * 2160"
  shows "isl (fst (ABFField_read fs self))
       \<and> data (snd (ABFField_read fs self)) = data self
       \<and> (parses (basename (filename self)) \<longrightarrow> fst (ABFField_read fs self) = Inl ValueError)
       \<and> (data self = None \<longrightarrow>
            isl (fst (getattr_data fs self)) \<and> data (snd (getattr_data fs self)) = None)"
proof -
  from assms(2) have "reshape bytes X_SIZE Y_SIZE = Inl ValueError"
    by (simp add: reshape_fails X_SIZE_def Y_SIZE_def)
  with assms(1) have r: "isl (fst (ABFField_read fs self))"
      "data (snd (ABFField_read fs self)) = data self"
      "parses (basename (filename self)) \<longrightarrow> fst (ABFField_read fs self) = Inl ValueError"
    by (auto simp: ABFField_read_def Let_def np_fromfile_def parses_def
          split: sum.splits option.splits)
  have "isl (fst (getattr_data fs self)) \<and> data (snd (getattr_data fs self)) = None"
    if n: "data self = None"
  proof -
    obtain res s where rs: "ABFField_read fs self = (res, s)"
      by (cases "ABFField_read fs self")
    with r(1,2) obtain e where "res = Inl e" and "data s = None"
      by (cases res) (simp_all add: n)
    then have "getattr_data fs self = (Inl e, s)"
      by (simp add: getattr_data_def n rs)
    then show ?thesis using \<open>data s = None\<close> by simp
  qed
  with r show ?thesis by blast
qed

theorem read_size_exact_witness:
  "isl (fst (ABFField_read (\<lambda>p. Some (replicate (4320 * 2160 + 1) 0))
          (new_field ''AVHRRBUVI01.1985feba.abl'')))
   \<and> data (snd (ABFField_read (\<lambda>p. Some (replicate (4320 * 2160 + 1) 0))
          (new_field ''AVHRRBUVI01.1985feba.abl''))) = None
   \<and> isl (fst (ABFField_read (\<lambda>p. Some (replicate (4320 * 2160 - 1) 0))
          (new_field ''AVHRRBUVI01.1985feba.abl'')))"
proof -
  let ?self = "new_field ''AVHRRBUVI01.1985feba.abl''"
  have "length (replicate (4320 * 2160 + 1) (0::u8)) \<noteq> 4320 * 2160" by simp
  from read_size_exact [of "\<lambda>p. Some (replicate (4320 * 2160 + 1) 0)" ?self, OF refl this]
  have a: "isl (fst (ABFField_read (\<lambda>p. Some (replicate (4320 * 2160 + 1) 0)) ?self))"
    "data (snd (ABFField_read (\<lambda>p. Some (replicate (4320 * 2160 + 1) 0)) ?self)) = None"
    by (simp_all add: new_field_def)
  have "length (replicate (4320 * 2160 - 1) (0::u8)) \<noteq> 4320 * 2160" by simp
  from read_size_exact [of "\<lambda>p. Some (replicate (4320 * 2160 - 1) 0)" ?self, OF refl this]
  have "isl (fst (ABFField_read (\<lambda>p. Some (replicate (4320 * 2160 - 1) 0)) ?self))"
    by simp
  with a show ?thesis by blast
qed

subsection \<open>Reading\<close>

lemma init_new_field:
  "ABFField_init path = (if length (basename path) = 24 then Inr (new_field path) else Inl ValueError)"
  by (simp add: ABFField_init_def new_field_def)

lemma read_returns:
  assumes "ABFField_read fs self = (Inr u, self')"
  shows "\<exists>v y m bytes a.
      py_int (py_slice 9 11 (basename (filename self))) = Inr v
    \<and> py_int (py_slice 12 16 (basename (filename self))) = Inr y
    \<and> month_numbers (py_slice 16 19 (basename (filename self))) = Some m
    \<and> fs (filename self) = Some bytes
    \<and> reshape bytes X_SIZE Y_SIZE = Inr a
    \<and> self' = self\<lparr>version := Some v, year := Some y, month := Some (Number m),
        period := Some (py_slice 19 20 (basename (filename self))),
        format := Some (py_slice 21 24 (basename (filename self))),
        data := Some ((masked_greater (flip_rows (transpose_2d a)) 100)\<lparr>fill_value := 255\<rparr>)\<rparr>"
  using assms
  by (auto simp: ABFField_read_def Let_def np_fromfile_def split: sum.splits option.splits)

lemma read_raises_month:
  assumes "month_numbers (py_slice 16 19 (basename (filename self))) = None"
  shows "\<exists>e. fst (ABFField_read fs self) = Inl e \<and> InvalidFilenameError e"
  using assms
  by (auto simp: ABFField_read_def Let_def InvalidFilenameError_def py_int_def
        split: sum.splits option.splits list.splits if_splits)

lemma month_numbers_range:
  "month_numbers t = Some m \<Longrightarrow> 1 \<le> m \<and> m \<le> 12"
  by (auto simp: month_numbers_def split: if_splits)

lemma py_int_error: "py_int s = Inl e \<Longrightarrow> e = ValueError"
  by (auto simp: py_int_def split: list.splits if_splits option.splits)

subsection \<open>Attribute access\<close>

lemma getattr_data_loaded: "data self = Some d \<Longrightarrow> getattr_data fs self = (Inr d, self)"
  by (simp add: getattr_data_def)

lemma getattr_data_returns:
  assumes "getattr_data fs self0 = (Inr d, self)"
  shows "data self = Some d"
    and "(data self0 = Some d \<and> self = self0)
       \<or> (data self0 = None \<and> ABFField_read fs self0 = (Inr (), self))"
  using assms
  by (auto simp: getattr_data_def split: option.splits sum.splits prod.splits)

lemma getattr_Some: "key self = Some v \<Longrightarrow> getattr key self = Inr v"
  by (simp add: getattr_def)

lemma getattr_None: "key self = None \<Longrightarrow> getattr key self = Inl AttributeError"
  by (simp add: getattr_def)

lemma getattr_returns: "getattr key self = Inr v \<Longrightarrow> key self = Some v"
  by (simp add: getattr_def split: option.splits)

subsection \<open>Days of the month\<close>

lemma month_cases:
  assumes "1 \<le> m" and "m \<le> (12::int)"
  shows "m = 1 \<or> m = 2 \<or> m = 3 \<or> m = 4 \<or> m = 5 \<or> m = 6
       \<or> m = 7 \<or> m = 8 \<or> m = 9 \<or> m = 10 \<or> m = 11 \<or> m = 12"
  using assms by arith

lemma days_in_month_last:
  assumes "1 \<le> m" and "m \<le> 12"
  shows "days_in_month y m = last_day_of_month y m"
  using month_cases [OF assms]
  by (elim disjE) (simp_all add: days_in_month_def last_day_of_month_def DAYS_IN_MONTH_def isleap_def)

lemma monthrange_last:
  assumes "1 \<le> m" and "m \<le> 12"
  shows "monthrange_ndays y m = Inr (last_day_of_month y m)"
  using month_cases [OF assms]
  by (elim disjE) (simp_all add: monthrange_ndays_def last_day_of_month_def mdays_def isleap_def)

lemma monthrange_returns:
  "monthrange_ndays y m = Inr n \<Longrightarrow> 1 \<le> m \<and> m \<le> 12 \<and> n = last_day_of_month y m"
  using monthrange_last [of m y]
  by (auto simp: monthrange_ndays_def split: if_splits)

lemma last_day_bounds: "28 \<le> last_day_of_month y m \<and> last_day_of_month y m \<le> 31"
  by (simp add: last_day_of_month_def)

lemma date_new_valid:
  assumes "1 \<le> y" "y \<le> 9999" "1 \<le> m" "m \<le> 12" "1 \<le> d" "d \<le> last_day_of_month y m"
  shows "date_new y m d = Inr \<lparr>date_year = y, date_month = m, date_day = d\<rparr>"
  using assms by (simp add: date_new_def days_in_month_last)

lemma date_new_returns:
  "date_new y m d = Inr dt \<Longrightarrow>
     1 \<le> y \<and> y \<le> 9999 \<and> 1 \<le> m \<and> m \<le> 12 \<and> 1 \<le> d \<and> d \<le> last_day_of_month y m
     \<and> toordinal dt = ymd2ord y m d"
  by (auto simp: date_new_def toordinal_def days_in_month_last split: if_splits)

subsection \<open>The steps of to\_cube\<close>

lemma period_days_returns:
  assumes "period_days self = Inr (s, e)"
  shows "\<exists>p. period self = Some p \<and>
     ((p = ''a'' \<and> s = 1 \<and> e = 15)
      \<or> (p = ''b'' \<and> s = 16 \<and>
          (\<exists>y m. year self = Some y \<and> month self = Some (Number m) \<and> 1 \<le> m \<and> m \<le> 12
              \<and> e = last_day_of_month y m)))"
proof -
  from assms obtain p where p: "period self = Some p"
    by (auto simp: period_days_def getattr_def split: option.splits)
  show ?thesis
  proof (cases "p = ''a''")
    case True
    with assms p show ?thesis by (simp add: period_days_def getattr_def)
  next
    case False
    with assms p have b: "p = ''b''"
      by (auto simp: period_days_def getattr_def split: if_splits)
    from assms p b obtain y mm m n where
      "year self = Some y" "month self = Some mm" "month_int mm = Inr m"
      "monthrange_ndays y m = Inr n" "s = 16" "e = n"
      by (auto simp: period_days_def getattr_def split: option.splits sum.splits)
    moreover from this have "mm = Number m"
      by (cases mm) (simp_all add: month_int_def)
    ultimately show ?thesis using p b monthrange_returns [of y m n] by auto
  qed
qed

lemma field_date_returns:
  assumes "field_date self d = Inr dt"
  shows "\<exists>y m. year self = Some y \<and> month self = Some (Number m)
      \<and> 1 \<le> y \<and> y \<le> 9999 \<and> 1 \<le> m \<and> m \<le> 12 \<and> toordinal dt = ymd2ord y m d"
proof -
  from assms obtain y mm m where
    f: "year self = Some y" "month self = Some mm" "month_int mm = Inr m" "date_new y m d = Inr dt"
    by (auto simp: field_date_def getattr_def split: option.splits sum.splits)
  then have "mm = Number m" by (cases mm) (simp_all add: month_int_def)
  with f date_new_returns [of y m d dt] show ?thesis by auto
qed

lemma to_cube_time_returns:
  assumes "to_cube_time self = Inr t"
  shows "\<exists>p y m. period self = Some p \<and> year self = Some y \<and> month self = Some (Number m)
      \<and> 1 \<le> y \<and> y \<le> 9999 \<and> 1 \<le> m \<and> m \<le> 12
      \<and> ((p = ''a'' \<and> t = time_coord (ordinal_less_one y m 1) (ordinal_less_one y m 15))
         \<or> (p = ''b'' \<and> t = time_coord (ordinal_less_one y m 16)
                                  (ordinal_less_one y m (last_day_of_month y m))))"
proof -
  from assms obtain s e sd ed where
    pd: "period_days self = Inr (s, e)" and sd: "field_date self s = Inr sd"
    and ed: "field_date self e = Inr ed"
    and t: "t = time_coord (toordinal sd - 1) (toordinal ed - 1)"
    by (auto simp: to_cube_time_def time_coord_def Let_def split: sum.splits prod.splits)
  from field_date_returns [OF sd] obtain y m where
    ym: "year self = Some y" "month self = Some (Number m)"
      "1 \<le> y" "y \<le> 9999" "1 \<le> m" "m \<le> 12" and os: "toordinal sd = ymd2ord y m s"
    by blast
  from field_date_returns [OF ed] ym(1,2) have oe: "toordinal ed = ymd2ord y m e"
    by auto
  from period_days_returns [OF pd] ym(1,2) obtain p where
    p: "period self = Some p"
      "(p = ''a'' \<and> s = 1 \<and> e = 15) \<or> (p = ''b'' \<and> s = 16 \<and> e = last_day_of_month y m)"
    by auto
  with ym t os oe show ?thesis by (auto simp: ordinal_less_one_def)
qed

lemma to_cube_time_valid:
  assumes "period self = Some p" "p = ''a'' \<or> p = ''b''"
    and "year self = Some y" "month self = Some (Number m)"
    and "1 \<le> y" "y \<le> 9999" "1 \<le> m" "m \<le> 12"
  shows "to_cube_time self =
     Inr (if p = ''a'' then time_coord (ordinal_less_one y m 1) (ordinal_less_one y m 15)
          else time_coord (ordinal_less_one y m 16)
                 (ordinal_less_one y m (last_day_of_month y m)))"
proof -
  have pd: "period_days self = Inr (if p = ''a'' then (1, 15) else (16, last_day_of_month y m))"
    using assms by (auto simp: period_days_def getattr_def month_int_def monthrange_last)
  have fd: "\<And>d. 1 \<le> d \<Longrightarrow> d \<le> last_day_of_month y m \<Longrightarrow>
      field_date self d = Inr \<lparr>date_year = y, date_month = m, date_day = d\<rparr>"
    using assms by (simp add: field_date_def getattr_def month_int_def date_new_valid)
  have b: "28 \<le> last_day_of_month y m" using last_day_bounds by blast
  then have "field_date self 1 = Inr \<lparr>date_year = y, date_month = m, date_day = 1\<rparr>"
    "field_date self 15 = Inr \<lparr>date_year = y, date_month = m, date_day = 15\<rparr>"
    "field_date self 16 = Inr \<lparr>date_year = y, date_month = m, date_day = 16\<rparr>"
    "field_date self (last_day_of_month y m) =
       Inr \<lparr>date_year = y, date_month = m, date_day = last_day_of_month y m\<rparr>"
    by (simp_all add: fd)
  with pd show ?thesis
    by (simp add: to_cube_time_def time_coord_def ordinal_less_one_def toordinal_def Let_def)
qed

lemma to_cube_returns:
  assumes "ABFField_to_cube fs self0 = (Inr cube, self)"
  shows "\<exists>d fmt t. getattr_data fs self0 = (Inr d, self) \<and> format self = Some fmt
      \<and> (lower fmt = ''abf'' \<or> lower fmt = ''abl'') \<and> to_cube_time self = Inr t
      \<and> cube = \<lparr>cube_data = d,
           cube_name = Some (if lower fmt = ''abf'' then ''FAPAR'' else ''leaf_area_index''),
           cube_units = Some ''%'', dim_coords = [(x_coord, 1), (y_coord, 0)],
           aux_coords = [t], attributes = [''source'' \<mapsto> ''Boston University'']\<rparr>"
proof -
  obtain r s where g: "getattr_data fs self0 = (r, s)" by (cases "getattr_data fs self0")
  with assms obtain d where r: "r = Inr d" and s: "s = self"
    by (cases r) (auto simp: ABFField_to_cube_def Let_def split: sum.splits)
  from assms g r s obtain cube1 t where
    n: "to_cube_name self (Cube_new d) = Inr cube1" and t: "to_cube_time self = Inr t"
    and c: "cube = (add_aux_coord (add_dim_coord (add_dim_coord
              (cube1\<lparr>cube_units := Some ''%''\<rparr>) x_coord 1) y_coord 0) t)
              \<lparr>attributes := (attributes (add_aux_coord (add_dim_coord (add_dim_coord
              (cube1\<lparr>cube_units := Some ''%''\<rparr>) x_coord 1) y_coord 0) t))
                 (''source'' \<mapsto> ''Boston University'')\<rparr>"
    by (auto simp: ABFField_to_cube_def Let_def split: sum.splits)
  from n obtain fmt where f: "format self = Some fmt"
    "lower fmt = ''abf'' \<or> lower fmt = ''abl''"
    "cube1 = rename (Cube_new d) (if lower fmt = ''abf'' then ''FAPAR'' else ''leaf_area_index'')"
    by (auto simp: to_cube_name_def getattr_def split: option.splits if_splits)
  have "cube = \<lparr>cube_data = d,
           cube_name = Some (if lower fmt = ''abf'' then ''FAPAR'' else ''leaf_area_index''),
           cube_units = Some ''%'', dim_coords = [(x_coord, 1), (y_coord, 0)],
           aux_coords = [t], attributes = [''source'' \<mapsto> ''Boston University'']\<rparr>"
    by (simp add: c f(3) rename_def Cube_new_def add_dim_coord_def add_aux_coord_def)
  with g r s f t show ?thesis by auto
qed

lemma to_cube_unknown_format:
  assumes "getattr_data fs self0 = (Inr d, self)" and "format self = Some fmt"
    and "lower fmt \<noteq> ''abf''" and "lower fmt \<noteq> ''abl''"
  shows "ABFField_to_cube fs self0 =
           (Inl (TranslationError (''Unknown ABF/ABL format: '' @ fmt)), self)"
  using assms by (simp add: ABFField_to_cube_def to_cube_name_def getattr_def)

lemma to_cube_unknown_period:
  assumes "getattr_data fs self0 = (Inr d, self)" and "format self = Some fmt"
    and "lower fmt = ''abf'' \<or> lower fmt = ''abl''"
    and "period self = Some p" and "p \<noteq> ''a''" and "p \<noteq> ''b''"
  shows "ABFField_to_cube fs self0 = (Inl (TranslationError (''Unknown period: '' @ p)), self)"
proof -
  from assms(4-6) have "to_cube_time self = Inl (TranslationError (''Unknown period: '' @ p))"
    by (simp add: to_cube_time_def period_days_def getattr_def)
  with assms(1-3) show ?thesis
    by (auto simp: ABFField_to_cube_def to_cube_name_def getattr_def Let_def)
qed

lemma to_cube_valid:
  assumes "getattr_data fs self0 = (Inr d, self)" and "format self = Some fmt"
    and "lower fmt = ''abf'' \<or> lower fmt = ''abl''"
    and "to_cube_time self = Inr t"
  shows "ABFField_to_cube fs self0 =
     (Inr \<lparr>cube_data = d,
           cube_name = Some (if lower fmt = ''abf'' then ''FAPAR'' else ''leaf_area_index''),
           cube_units = Some ''%'', dim_coords = [(x_coord, 1), (y_coord, 0)],
           aux_coords = [t], attributes = [''source'' \<mapsto> ''Boston University'']\<rparr>, self)"
  using assms
  by (auto simp: ABFField_to_cube_def to_cube_name_def getattr_def Let_def rename_def
        Cube_new_def add_dim_coord_def add_aux_coord_def)

subsection \<open>Fields for the examples\<close>

lemma lower_examples:
  "lower ''abf'' = ''abf''" "lower ''abl'' = ''abl''" "lower ''ABF'' = ''abf''"
  "lower ''xyz'' = ''xyz''"
  by code_simp+

lemma mock_field_data:
  "getattr_data fs (mock_field fmt p y m) =
     (Inr \<lparr>ma_data = [], ma_mask = [], fill_value = 255\<rparr>, mock_field fmt p y m)"
  by (simp add: getattr_data_def mock_field_def)

lemma mock_field_attrs:
  "format (mock_field fmt p y m) = Some fmt" "period (mock_field fmt p y m) = Some p"
  "year (mock_field fmt p y m) = Some y" "month (mock_field fmt p y m) = Some (Number m)"
  by (simp_all add: mock_field_def)

lemma mock_field_time:
  assumes "p = ''a'' \<or> p = ''b''"
  shows "\<exists>t. to_cube_time (mock_field fmt p 2020 4) = Inr t"
  using to_cube_time_valid [of "mock_field fmt p 2020 4" p 2020 4] assms
  by (simp add: mock_field_attrs)

subsection \<open>No partial cube\<close>

text \<open>
  Claim C8. Take a field whose data is at hand, with format tag \<open>fmt\<close> and period \<open>p\<close>.
  An unknown format tag makes \<^verbatim>\<open>to_cube\<close> raise \<^verbatim>\<open>TranslationError\<close> with the message
  for the format; a known tag with a period other than \<^verbatim>\<open>a\<close> and \<^verbatim>\<open>b\<close> makes it raise
  \<^verbatim>\<open>TranslationError\<close> with the message for the period. In both cases the result is the
  exception: no cube is returned, although one was under construction.
\<close>

theorem to_cube_no_partial_cube:
  assumes "getattr_data fs self0 = (Inr d, self)"
    and "format self = Some fmt" and "period self = Some p"
  shows "(lower fmt \<noteq> ''abf'' \<and> lower fmt \<noteq> ''abl'' \<longrightarrow>
            ABFField_to_cube fs self0 =
              (Inl (TranslationError (''Unknown ABF/ABL format: '' @ fmt)), self))
       \<and> ((lower fmt = ''abf'' \<or> lower fmt = ''abl'') \<and> p \<noteq> ''a'' \<and> p \<noteq> ''b'' \<longrightarrow>
            ABFField_to_cube fs self0 =
              (Inl (TranslationError (''Unknown period: '' @ p)), self))
       \<and> ((lower fmt \<noteq> ''abf'' \<and> lower fmt \<noteq> ''abl'') \<or> (p \<noteq> ''a'' \<and> p \<noteq> ''b'') \<longrightarrow>
            isl (fst (ABFField_to_cube fs self0)))"
proof -
  have 1: "ABFField_to_cube fs self0 =
      (Inl (TranslationError (''Unknown ABF/ABL format: '' @ fmt)), self)"
    if "lower fmt \<noteq> ''abf'' \<and> lower fmt \<noteq> ''abl''"
    using that assms by (simp add: to_cube_unknown_format)
  have 2: "ABFField_to_cube fs self0 = (Inl (TranslationError (''Unknown period: '' @ p)), self)"
    if "(lower fmt = ''abf'' \<or> lower fmt = ''abl'') \<and> p \<noteq> ''a'' \<and> p \<noteq> ''b''"
    using that assms to_cube_unknown_period [of fs self0 d self fmt p] by blast
  have 3: "isl (fst (ABFField_to_cube fs self0))"
    if "(lower fmt \<noteq> ''abf'' \<and> lower fmt \<noteq> ''abl'') \<or> (p \<noteq> ''a'' \<and> p \<noteq> ''b'')"
  proof (cases "lower fmt = ''abf'' \<or> lower fmt = ''abl''")
    case True with that 2 show ?thesis by auto
  next
    case False with 1 show ?thesis by auto
  qed
  from 1 2 3 show ?thesis by blast
qed

theorem to_cube_no_partial_cube_witness:
  "ABFField_to_cube Map.empty (mock_field ''xyz'' ''a'' 2020 4) =
      (Inl (TranslationError ''Unknown ABF/ABL format: xyz''), mock_field ''xyz'' ''a'' 2020 4)
 \<and> ABFField_to_cube Map.empty (mock_field ''abf'' ''c'' 2020 4) =
      (Inl (TranslationError ''Unknown period: c''), mock_field ''abf'' ''c'' 2020 4)
 \<and> isl (fst (ABFField_to_cube Map.empty (mock_field ''xyz'' ''c'' 2020 4)))"
  using to_cube_no_partial_cube [OF mock_field_data [of Map.empty "''xyz''" "''a''" 2020 4] mock_field_attrs(1,2)]
    to_cube_no_partial_cube [OF mock_field_data [of Map.empty "''abf''" "''c''" 2020 4] mock_field_attrs(1,2)]
    to_cube_no_partial_cube [OF mock_field_data [of Map.empty "''xyz''" "''c''" 2020 4] mock_field_attrs(1,2)]
  by (simp add: lower_examples)

subsection \<open>A fresh object\<close>

lemma new_field_attrs:
  "filename (new_field path) = path" "version (new_field path) = None"
  "year (new_field path) = None" "month (new_field path) = None"
  "period (new_field path) = None" "format (new_field path) = None"
  "data (new_field path) = None"
  by (simp_all add: new_field_def)

lemma getattr_data_fresh:
  assumes "data self = None"
  shows "(\<exists>e s. ABFField_read fs self = (Inl e, s) \<and> getattr_data fs self = (Inl e, s))
       \<or> (\<exists>d s. ABFField_read fs self = (Inr (), s) \<and> data s = Some d
              \<and> getattr_data fs self = (Inr d, s))"
proof -
  obtain r s where rs: "ABFField_read fs self = (r, s)" by (cases "ABFField_read fs self")
  show ?thesis
  proof (cases r)
    case (Inl e)
    with rs assms show ?thesis by (simp add: getattr_data_def)
  next
    case (Inr u)
    with rs have "ABFField_read fs self = (Inr u, s)" by simp
    from read_returns [OF this] obtain d where "data s = Some d" by auto
    with rs Inr assms show ?thesis by (simp add: getattr_data_def)
  qed
qed

lemma to_cube_raises_with_read:
  assumes "data self = None" and "isl (fst (ABFField_read fs self))"
  shows "isl (fst (ABFField_to_cube fs self))"
  using getattr_data_fresh [OF assms(1), of fs] assms(2)
  by (auto simp: ABFField_to_cube_def)

lemma fresh_to_cube_unknown:
  assumes "(lower (py_slice 21 24 (basename path)) \<noteq> ''abf''
            \<and> lower (py_slice 21 24 (basename path)) \<noteq> ''abl'')
         \<or> (py_slice 19 20 (basename path) \<noteq> ''a'' \<and> py_slice 19 20 (basename path) \<noteq> ''b'')"
  shows "isl (fst (ABFField_to_cube fs (new_field path)))"
proof -
  from getattr_data_fresh [OF new_field_attrs(7), of fs path]
  show ?thesis
  proof (elim disjE exE conjE)
    fix e s assume "ABFField_read fs (new_field path) = (Inl e, s)"
    then have "isl (fst (ABFField_read fs (new_field path)))" by simp
    then show ?thesis by (rule to_cube_raises_with_read [OF new_field_attrs(7)])
  next
    fix d s assume r: "ABFField_read fs (new_field path) = (Inr (), s)"
      and g: "getattr_data fs (new_field path) = (Inr d, s)"
    from read_returns [OF r] have f: "format s = Some (py_slice 21 24 (basename path))"
      and p: "period s = Some (py_slice 19 20 (basename path))"
      by (auto simp: new_field_attrs)
    show ?thesis
    proof (cases "lower (py_slice 21 24 (basename path)) = ''abf''
                \<or> lower (py_slice 21 24 (basename path)) = ''abl''")
      case True
      with assms have "py_slice 19 20 (basename path) \<noteq> ''a''"
        "py_slice 19 20 (basename path) \<noteq> ''b''" by auto
      from to_cube_unknown_period [OF g f True p this] show ?thesis by simp
    next
      case False
      then have "lower (py_slice 21 24 (basename path)) \<noteq> ''abf''"
        "lower (py_slice 21 24 (basename path)) \<noteq> ''abl''" by auto
      from to_cube_unknown_format [OF g f this] show ?thesis by simp
    qed
  qed
qed


subsection \<open>The constructor\<close>

text \<open>
  Claim C4. The constructor looks at the length of the base name and at nothing else;
  it takes no file system. With a base name of 24 characters it returns the fresh
  object, with any other length it raises \<^verbatim>\<open>ValueError\<close>. An unknown month token
  makes \<^verbatim>\<open>_read\<close>, the first access to \<^verbatim>\<open>data\<close> and \<^verbatim>\<open>to_cube\<close> raise on the fresh
  object; an unknown format tag or period makes \<^verbatim>\<open>to_cube\<close> raise on it. So these
  failures come up when the field is read or turned into a cube, not in the constructor.
\<close>

theorem init_length_contract:
  "(length (basename path) = 24 \<longrightarrow> ABFField_init path = Inr (new_field path))
 \<and> (length (basename path) \<noteq> 24 \<longrightarrow> ABFField_init path = Inl ValueError)
 \<and> (month_numbers (py_slice 16 19 (basename path)) = None \<longrightarrow>
       isl (fst (ABFField_read fs (new_field path)))
     \<and> isl (fst (getattr_data fs (new_field path)))
     \<and> isl (fst (ABFField_to_cube fs (new_field path))))
 \<and> ((lower (py_slice 21 24 (basename path)) \<noteq> ''abf''
        \<and> lower (py_slice 21 24 (basename path)) \<noteq> ''abl'')
      \<or> (py_slice 19 20 (basename path) \<noteq> ''a'' \<and> py_slice 19 20 (basename path) \<noteq> ''b'')
     \<longrightarrow> isl (fst (ABFField_to_cube fs (new_field path))))"
proof -
  have m: "isl (fst (ABFField_read fs (new_field path)))
     \<and> isl (fst (getattr_data fs (new_field path)))
     \<and> isl (fst (ABFField_to_cube fs (new_field path)))"
    if n: "month_numbers (py_slice 16 19 (basename path)) = None"
  proof -
    from read_raises_month [of "new_field path" fs] n
    have r: "isl (fst (ABFField_read fs (new_field path)))"
      by (auto simp: new_field_attrs)
    moreover from getattr_data_fresh [OF new_field_attrs(7), of fs path] r
    have "isl (fst (getattr_data fs (new_field path)))" by auto
    moreover from r have "isl (fst (ABFField_to_cube fs (new_field path)))"
      by (rule to_cube_raises_with_read [OF new_field_attrs(7)])
    ultimately show ?thesis by blast
  qed
  show ?thesis
    using m fresh_to_cube_unknown [of path fs] by (simp add: init_new_field)
qed

text \<open>The two file names of the module's tests for the constructor.\<close>

lemma name_lengths:
  "length (basename ''/path/to/abf/file/000000000000000000000000'') = 24"
  "length (basename ''/path/to/abf/file/too_short'') = 9"
  "month_numbers (py_slice 16 19 (basename ''/path/to/abf/file/000000000000000000000000'')) = None"
  by (simp_all add: basename_def py_slice_def month_numbers_def)

theorem init_length_contract_witness:
  "ABFField_init ''/path/to/abf/file/000000000000000000000000''
     = Inr (new_field ''/path/to/abf/file/000000000000000000000000'')
 \<and> isl (fst (ABFField_read Map.empty (new_field ''/path/to/abf/file/000000000000000000000000'')))
 \<and> isl (fst (ABFField_to_cube Map.empty (new_field ''/path/to/abf/file/000000000000000000000000'')))
 \<and> ABFField_init ''/path/to/abf/file/too_short'' = Inl ValueError"
  using init_length_contract [of "''/path/to/abf/file/000000000000000000000000''" Map.empty]
    init_length_contract [of "''/path/to/abf/file/too_short''" Map.empty]
  by (simp add: name_lengths)

subsection \<open>The month token\<close>


lemma month_numbers_table:
  "month_numbers ''jan'' = Some 1" "month_numbers ''feb'' = Some 2"
  "month_numbers ''mar'' = Some 3" "month_numbers ''apr'' = Some 4"
  "month_numbers ''may'' = Some 5" "month_numbers ''jun'' = Some 6"
  "month_numbers ''jul'' = Some 7" "month_numbers ''aug'' = Some 8"
  "month_numbers ''sep'' = Some 9" "month_numbers ''oct'' = Some 10"
  "month_numbers ''nov'' = Some 11" "month_numbers ''dec'' = Some 12"
  by (simp_all add: month_numbers_def)


text \<open>
  The file name of the class's documentation, the same with the month in capitals and
  with an unknown month.
\<close>

lemma example_names:
  "basename ''AVHRRBUVI01.1985feba.abl'' = ''AVHRRBUVI01.1985feba.abl''"
  "basename ''AVHRRBUVI01.1985FEBa.abl'' = ''AVHRRBUVI01.1985FEBa.abl''"
  "basename ''AVHRRBUVI01.1985xyza.abl'' = ''AVHRRBUVI01.1985xyza.abl''"
  "py_int ''01'' = Inr 1" "py_int ''1985'' = Inr 1985"
  "month_numbers ''FEB'' = None" "month_numbers ''xyz'' = None"
  by (simp_all add: basename_def py_int_def strip_def is_space_def is_digit_def
        digit_value_def month_numbers_def)

lemma full_file: "\<exists>a. reshape (replicate (4320 * 2160) (0::u8)) X_SIZE Y_SIZE = Inr a"
  by (rule reshape_total) (simp add: X_SIZE_def Y_SIZE_def)



subsection \<open>Lazy reading\<close>

text \<open>
  Claim C5 says that the first access to any of \<^verbatim>\<open>version\<close>, \<^verbatim>\<open>year\<close>, \<^verbatim>\<open>month\<close>,
  \<^verbatim>\<open>period\<close>, \<^verbatim>\<open>format\<close> or \<^verbatim>\<open>data\<close> on a fresh object parses the file name and returns
  the parsed value. \<^verbatim>\<open>__getattr__\<close> calls \<^verbatim>\<open>_read\<close> for the key \<^verbatim>\<open>data\<close> only: on the
  fresh object of the documentation's file name, whose year field reads 1985, the access
  to \<^verbatim>\<open>year\<close> raises \<^verbatim>\<open>AttributeError\<close>.
\<close>

theorem lazy_metadata_counterexample:
  "ABFField_init ''AVHRRBUVI01.1985feba.abl'' = Inr (new_field ''AVHRRBUVI01.1985feba.abl'')
 \<and> py_int (py_slice 12 16 (basename ''AVHRRBUVI01.1985feba.abl'')) = Inr 1985
 \<and> getattr year (new_field ''AVHRRBUVI01.1985feba.abl'') = Inl AttributeError"
  by (simp add: init_new_field example_names py_slice_def getattr_def new_field_attrs)

text \<open>
  Claim C5 as amended. On the object that the constructor returns, an access to
  \<^verbatim>\<open>version\<close>, \<^verbatim>\<open>year\<close>, \<^verbatim>\<open>month\<close>, \<^verbatim>\<open>period\<close> or \<^verbatim>\<open>format\<close> raises
  \<^verbatim>\<open>AttributeError\<close>: nothing has been parsed. The first access to \<^verbatim>\<open>data\<close> calls
  \<^verbatim>\<open>_read\<close>; when it returns the grid, the five attributes hold the values parsed from
  the base name, and a later access to \<^verbatim>\<open>data\<close> returns the same grid without reading,
  whatever the file system then holds. The access to \<^verbatim>\<open>data\<close> does return when the base
  name parses and the file holds 4320 * 2160 bytes.
\<close>

theorem lazy_read_on_data_access:
  assumes "ABFField_init path = Inr h"
  shows "getattr version h = Inl AttributeError \<and> getattr year h = Inl AttributeError
       \<and> getattr month h = Inl AttributeError \<and> getattr period h = Inl AttributeError
       \<and> getattr format h = Inl AttributeError
       \<and> (\<forall>d h'. getattr_data fs h = (Inr d, h') \<longrightarrow>
              ABFField_read fs h = (Inr (), h')
            \<and> getattr version h' = py_int (py_slice 9 11 (basename path))
            \<and> getattr year h' = py_int (py_slice 12 16 (basename path))
            \<and> (\<exists>m. month_numbers (py_slice 16 19 (basename path)) = Some m
                   \<and> getattr month h' = Inr (Number m))
            \<and> getattr period h' = Inr (py_slice 19 20 (basename path))
            \<and> getattr format h' = Inr (py_slice 21 24 (basename path))
            \<and> getattr_data fs' h' = (Inr d, h'))
       \<and> (parses (basename path) \<and> fs path = Some bytes \<and> length bytes = 4320 * 2160 \<longrightarrow>
              (\<exists>d h'. getattr_data fs h = (Inr d, h')))"
proof -
  from assms have h: "h = new_field path"
    by (simp add: init_new_field split: if_splits)
  have fresh: "getattr version h = Inl AttributeError \<and> getattr year h = Inl AttributeError
       \<and> getattr month h = Inl AttributeError \<and> getattr period h = Inl AttributeError
       \<and> getattr format h = Inl AttributeError"
    by (simp add: h getattr_def new_field_attrs)
  have loaded: "ABFField_read fs h = (Inr (), h')
            \<and> getattr version h' = py_int (py_slice 9 11 (basename path))
            \<and> getattr year h' = py_int (py_slice 12 16 (basename path))
            \<and> (\<exists>m. month_numbers (py_slice 16 19 (basename path)) = Some m
                   \<and> getattr month h' = Inr (Number m))
            \<and> getattr period h' = Inr (py_slice 19 20 (basename path))
            \<and> getattr format h' = Inr (py_slice 21 24 (basename path))
            \<and> getattr_data fs' h' = (Inr d, h')"
    if g: "getattr_data fs h = (Inr d, h')" for d h'
  proof -
    from getattr_data_returns [OF g] have d: "data h' = Some d"
      and r: "ABFField_read fs h = (Inr (), h')"
      by (simp_all add: h new_field_attrs)
    from read_returns [OF r] obtain v y m where
      "py_int (py_slice 9 11 (basename path)) = Inr v"
      "py_int (py_slice 12 16 (basename path)) = Inr y"
      "month_numbers (py_slice 16 19 (basename path)) = Some m"
      "version h' = Some v" "year h' = Some y" "month h' = Some (Number m)"
      "period h' = Some (py_slice 19 20 (basename path))"
      "format h' = Some (py_slice 21 24 (basename path))"
      by (auto simp: h new_field_attrs)
    with r d show ?thesis by (simp add: getattr_def getattr_data_loaded)
  qed
  have total: "\<exists>d h'. getattr_data fs h = (Inr d, h')"
    if "parses (basename path) \<and> fs path = Some bytes \<and> length bytes = 4320 * 2160"
  proof -
    from that obtain v y m where p: "py_int (py_slice 9 11 (basename path)) = Inr v"
      "py_int (py_slice 12 16 (basename path)) = Inr y"
      "month_numbers (py_slice 16 19 (basename path)) = Some m"
      by (auto simp: parses_def isl_def) (metis sum.exhaust)
    from that have "length bytes = X_SIZE * Y_SIZE" by (simp add: X_SIZE_def Y_SIZE_def)
    then obtain a where "reshape bytes X_SIZE Y_SIZE = Inr a" using reshape_total by blast
    with p that have "\<exists>s. ABFField_read fs h = (Inr (), s)"
      using read_result [of h v y m fs bytes a] by (simp add: h new_field_attrs)
    with getattr_data_fresh [of h fs] show ?thesis
      by (auto simp: h new_field_attrs)
  qed
  from fresh loaded total show ?thesis by blast
qed

theorem lazy_read_on_data_access_witness:
  "getattr year (new_field ''AVHRRBUVI01.1985feba.abl'') = Inl AttributeError
 \<and> (\<exists>d h'. getattr_data (\<lambda>p. Some (replicate (4320 * 2160) 0))
        (new_field ''AVHRRBUVI01.1985feba.abl'') = (Inr d, h')
      \<and> getattr version h' = Inr 1 \<and> getattr year h' = Inr 1985
      \<and> getattr month h' = Inr (Number 2) \<and> getattr period h' = Inr ''a''
      \<and> getattr format h' = Inr ''abl'' \<and> getattr_data Map.empty h' = (Inr d, h'))"
proof -
  let ?p = "''AVHRRBUVI01.1985feba.abl''"
  let ?fs = "\<lambda>p::string. Some (replicate (4320 * 2160) (0::u8))"
  have i: "ABFField_init ?p = Inr (new_field ?p)"
    by (simp add: init_new_field example_names)
  have ps: "parses (basename ?p)"
    by (simp add: parses_def example_names py_slice_def month_numbers_table)
  note th = lazy_read_on_data_access [OF i, of ?fs Map.empty "replicate (4320 * 2160) 0"]
  from th ps obtain d h' where g: "getattr_data ?fs (new_field ?p) = (Inr d, h')"
    by auto
  with th have "getattr version h' = Inr 1 \<and> getattr year h' = Inr 1985
      \<and> getattr month h' = Inr (Number 2) \<and> getattr period h' = Inr ''a''
      \<and> getattr format h' = Inr ''abl'' \<and> getattr_data Map.empty h' = (Inr d, h')"
    by (auto simp: example_names py_slice_def month_numbers_table)
  with th g show ?thesis by blast
qed

subsection \<open>load\_cubes\<close>

lemma gen_then_simps:
  "gen_then ([], Some e, st) k = ([], Some e, st)"
  "gen_then ([], None, st) k = k st"
  "gen_then (yield cube g) k = yield cube (gen_then g k)"
  by (auto simp: gen_then_def yield_def split: prod.splits option.splits)

lemma load_filenames_append:
  "load_filenames rc fs cb (xs @ ys) st =
     gen_then (load_filenames rc fs cb xs st) (load_filenames rc fs cb ys)"
proof (induction xs arbitrary: st)
  case Nil
  show ?case by (simp add: gen_then_simps)
next
  case (Cons x xs)
  show ?case
  proof (cases "ABFField_init x")
    case (Inl e)
    then show ?thesis by (simp add: gen_then_simps)
  next
    case (Inr field0)
    obtain r field where t: "ABFField_to_cube fs field0 = (r, field)"
      by (cases "ABFField_to_cube fs field0")
    show ?thesis
    proof (cases r)
      case (Inl e)
      with Inr t show ?thesis by (simp add: gen_then_simps)
    next
      case cube: (Inr cube)
      show ?thesis
      proof (cases cb)
        case None
        with Inr t cube Cons.IH show ?thesis by (simp add: gen_then_simps)
      next
        case (Some c)
        obtain q st1 where q: "rc c cube field x st = (q, st1)"
          by (cases "rc c cube field x st")
        show ?thesis
        proof (cases q)
          case (Inl e)
          with Inr t cube Some q show ?thesis by (simp add: gen_then_simps)
        next
          case res: (Inr res)
          with Inr t cube Some q Cons.IH show ?thesis
            by (cases res) (simp_all add: gen_then_simps)
        qed
      qed
    qed
  qed
qed

lemma load_filespecs_concat:
  "load_filespecs glob rc fs cb specs st =
     load_filenames rc fs cb (concat (map glob specs)) st"
proof (induction specs arbitrary: st)
  case Nil
  show ?case by simp
next
  case (Cons s specs)
  have "load_filespecs glob rc fs cb (s # specs) st =
      gen_then (load_filenames rc fs cb (glob s) st) (load_filespecs glob rc fs cb specs)"
    by (simp add: gen_then_def split: prod.splits option.splits)
  also have "load_filespecs glob rc fs cb specs = load_filenames rc fs cb (concat (map glob specs))"
    by (rule ext) (rule Cons.IH)
  finally show ?case by (simp add: load_filenames_append)
qed

lemma decode_returns:
  assumes "\<not> isl (decode fs name)"
  shows "\<exists>field0. ABFField_init name = Inr field0
           \<and> ABFField_to_cube fs field0 = (Inr (cube_of fs name), field_of fs name)"
  using assms
  by (auto simp: decode_def cube_of_def field_of_def split: sum.splits prod.splits)

lemma load_filenames_no_callback:
  assumes "\<forall>name \<in> set names. \<not> isl (decode fs name)"
  shows "load_filenames rc fs None names st = (map (cube_of fs) names, None, st)"
  using assms
proof (induction names)
  case Nil
  show ?case by simp
next
  case (Cons name names)
  from Cons.prems have "\<not> isl (decode fs name)" by simp
  from decode_returns [OF this] obtain field0 where
    "ABFField_init name = Inr field0"
    "ABFField_to_cube fs field0 = (Inr (cube_of fs name), field_of fs name)"
    by blast
  moreover from Cons have
    "load_filenames rc fs None names st = (map (cube_of fs) names, None, st)" by simp
  ultimately show ?case by (simp add: yield_def)
qed

lemma call_each_length: "call_each f xs st = (rs, st') \<Longrightarrow> length rs = length xs"
  by (induction xs arbitrary: st rs) (auto split: prod.splits)

lemma emitted_length:
  "\<forall>r \<in> set rs. \<not> isl r \<Longrightarrow>
     length (emitted rs) + length (filter (\<lambda>r. r = Inr None) rs) = length rs"
proof (induction rs)
  case Nil
  show ?case by simp
next
  case (Cons r rs)
  then obtain res where "r = Inr res" by (cases r) auto
  with Cons show ?case by (cases res) auto
qed

lemma load_filenames_callback:
  assumes "\<forall>name \<in> set names. \<not> isl (decode fs name)"
    and "call_each (\<lambda>name. rc cb (cube_of fs name) (field_of fs name) name) names st = (rs, st')"
    and "\<forall>r \<in> set rs. \<not> isl r"
  shows "load_filenames rc fs (Some cb) names st = (emitted rs, None, st')"
  using assms
proof (induction names arbitrary: st rs st')
  case Nil
  then show ?case by simp
next
  case (Cons name names)
  from Cons.prems(1) have "\<not> isl (decode fs name)" by simp
  from decode_returns [OF this] obtain field0 where
    d: "ABFField_init name = Inr field0"
    "ABFField_to_cube fs field0 = (Inr (cube_of fs name), field_of fs name)"
    by blast
  obtain r st1 where r: "rc cb (cube_of fs name) (field_of fs name) name st = (r, st1)"
    by (cases "rc cb (cube_of fs name) (field_of fs name) name st")
  obtain rs1 st2 where c:
    "call_each (\<lambda>name. rc cb (cube_of fs name) (field_of fs name) name) names st1 = (rs1, st2)"
    by (cases "call_each (\<lambda>name. rc cb (cube_of fs name) (field_of fs name) name) names st1")
  from Cons.prems(2) r c have rs: "rs = r # rs1" and st': "st' = st2" by simp_all
  from Cons.prems(3) rs obtain res where res: "r = Inr res" and ok: "\<forall>r \<in> set rs1. \<not> isl r"
    by (cases r) auto
  from Cons.prems(1) have "\<forall>name \<in> set names. \<not> isl (decode fs name)" by simp
  from Cons.IH [OF this c ok]
  have "load_filenames rc fs (Some cb) names st1 = (emitted rs1, None, st2)" .
  with d r res rs st' show ?case by (cases res) (simp_all add: yield_def)
qed

lemma decode_valid:
  assumes "length (basename name) = 24"
    and "py_int (py_slice 9 11 (basename name)) = Inr v"
    and "py_int (py_slice 12 16 (basename name)) = Inr y" and "1 \<le> y" and "y \<le> 9999"
    and "month_numbers (py_slice 16 19 (basename name)) = Some m"
    and "py_slice 19 20 (basename name) = ''a'' \<or> py_slice 19 20 (basename name) = ''b''"
    and "lower (py_slice 21 24 (basename name)) = ''abf''
       \<or> lower (py_slice 21 24 (basename name)) = ''abl''"
    and "fs name = Some bytes" and "length bytes = 4320 * 2160"
  shows "\<not> isl (decode fs name)"
proof -
  let ?b = "basename name"
  from assms(10) have "length bytes = X_SIZE * Y_SIZE" by (simp add: X_SIZE_def Y_SIZE_def)
  then obtain a where a: "reshape bytes X_SIZE Y_SIZE = Inr a" using reshape_total by blast
  define g where "g = (masked_greater (flip_rows (transpose_2d a)) 100)\<lparr>fill_value := 255\<rparr>"
  define self where "self = (new_field name)\<lparr>version := Some v, year := Some y,
      month := Some (Number m), period := Some (py_slice 19 20 ?b),
      format := Some (py_slice 21 24 ?b), data := Some g\<rparr>"
  have r: "ABFField_read fs (new_field name) = (Inr (), self)"
    using read_result [of "new_field name" v y m fs bytes a] assms(2,3,6,9) a
    by (simp add: new_field_attrs self_def g_def)
  have gd: "getattr_data fs (new_field name) = (Inr g, self)"
    using getattr_data_fresh [OF new_field_attrs(7), of fs name] r
    by (simp add: self_def)
  have f: "format self = Some (py_slice 21 24 ?b)" by (simp add: self_def)
  from month_numbers_range [OF assms(6)] have m: "1 \<le> m" "m \<le> 12" by simp_all
  have "\<exists>t. to_cube_time self = Inr t"
    using to_cube_time_valid [of self "py_slice 19 20 ?b" y m] assms(4,5,7) m
    by (simp add: self_def)
  then obtain t where t: "to_cube_time self = Inr t" ..
  from to_cube_valid [OF gd f assms(8) t]
  have "\<not> isl (fst (ABFField_to_cube fs (new_field name)))" by simp
  with assms(1) show ?thesis
    by (auto simp: decode_def init_new_field split: prod.splits sum.splits)
qed

text \<open>
  Claim C9. A single file specification is treated as the list that holds it. Let the
  matched files be the results of \<open>glob\<close> on the specifications, in order, and let every
  one of them decode. Without a callback \<^verbatim>\<open>load_cubes\<close> yields the cubes of the files in
  that order, as many as there are files, and raises nothing. With a callback,
  \<^verbatim>\<open>run_callback\<close> is called once per file, in order, with the file's cube, its field and
  its name; when no call raises, \<^verbatim>\<open>load_cubes\<close> yields what the calls returned, leaving
  out each \<open>None\<close>, and ends in the state the last call left. The number of cubes is then
  the number of files less the number of calls that returned \<open>None\<close>.
\<close>

theorem load_cubes_yields:
  assumes "\<forall>name \<in> set (concat (map glob specs)). \<not> isl (decode fs name)"
  shows "load_cubes glob rc fs (Str spec) cb st = load_cubes glob rc fs (Strs [spec]) cb st
       \<and> load_cubes glob rc fs (Strs specs) None st
           = (map (cube_of fs) (concat (map glob specs)), None, st)
       \<and> length (fst (load_cubes glob rc fs (Strs specs) None st))
           = length (concat (map glob specs))
       \<and> (\<forall>rs st'.
             call_each (\<lambda>name. rc c (cube_of fs name) (field_of fs name) name)
                (concat (map glob specs)) st = (rs, st')
             \<and> (\<forall>r \<in> set rs. \<not> isl r) \<longrightarrow>
               load_cubes glob rc fs (Strs specs) (Some c) st = (emitted rs, None, st')
             \<and> length rs = length (concat (map glob specs))
             \<and> length (emitted rs)
                 = length (concat (map glob specs)) - length (filter (\<lambda>r. r = Inr None) rs))"
proof -
  let ?files = "concat (map glob specs)"
  have 1: "load_cubes glob rc fs (Str spec) cb st = load_cubes glob rc fs (Strs [spec]) cb st"
    by (simp add: load_cubes_def)
  have 2: "load_cubes glob rc fs (Strs specs) None st = (map (cube_of fs) ?files, None, st)"
    using assms by (simp add: load_cubes_def load_filespecs_concat load_filenames_no_callback)
  have 3: "load_cubes glob rc fs (Strs specs) (Some c) st = (emitted rs, None, st')
         \<and> length rs = length ?files
         \<and> length (emitted rs) = length ?files - length (filter (\<lambda>r. r = Inr None) rs)"
    if c: "call_each (\<lambda>name. rc c (cube_of fs name) (field_of fs name) name) ?files st = (rs, st')"
      and ok: "\<forall>r \<in> set rs. \<not> isl r" for rs st'
  proof -
    have "load_filenames rc fs (Some c) ?files st = (emitted rs, None, st')"
      using assms c ok by (rule load_filenames_callback)
    then have "load_cubes glob rc fs (Strs specs) (Some c) st = (emitted rs, None, st')"
      by (simp add: load_cubes_def load_filespecs_concat)
    moreover from call_each_length [OF c] have l: "length rs = length ?files" .
    moreover from emitted_length [OF ok] l
    have "length (emitted rs) = length ?files - length (filter (\<lambda>r. r = Inr None) rs)"
      by simp
    ultimately show ?thesis by blast
  qed
  from 1 2 3 show ?thesis by simp
qed

text \<open>
  Two files under one specification, and a callback that counts its calls and returns
  \<open>None\<close> for the first file: two cubes without the callback, one with it, after two
  calls.
\<close>

lemma two_files_decode:
  "\<not> isl (decode (\<lambda>p. Some (replicate (4320 * 2160) 0)) ''/path/to/AVHRRBUVI01.1985feba.abl'')"
  "\<not> isl (decode (\<lambda>p. Some (replicate (4320 * 2160) 0)) ''/another/AVHRRBUVI01.1985febb.abf'')"
proof -
  have b: "basename ''/path/to/AVHRRBUVI01.1985feba.abl'' = ''AVHRRBUVI01.1985feba.abl''"
    "basename ''/another/AVHRRBUVI01.1985febb.abf'' = ''AVHRRBUVI01.1985febb.abf''"
    by (simp_all add: basename_def)
  show "\<not> isl (decode (\<lambda>p. Some (replicate (4320 * 2160) 0)) ''/path/to/AVHRRBUVI01.1985feba.abl'')"
    by (rule decode_valid [where v = 1 and y = 1985 and m = 2
          and bytes = "replicate (4320 * 2160) 0"])
       (simp_all add: b py_slice_def example_names month_numbers_table lower_examples)
  show "\<not> isl (decode (\<lambda>p. Some (replicate (4320 * 2160) 0)) ''/another/AVHRRBUVI01.1985febb.abf'')"
    by (rule decode_valid [where v = 1 and y = 1985 and m = 2
          and bytes = "replicate (4320 * 2160) 0"])
       (simp_all add: b py_slice_def example_names month_numbers_table lower_examples)
qed

theorem load_cubes_yields_witness:
  "load_cubes
     (\<lambda>s. if s = ''some-filename''
           then [''/path/to/AVHRRBUVI01.1985feba.abl'', ''/another/AVHRRBUVI01.1985febb.abf'']
           else [])
     (\<lambda>cb cube field name n.
         (Inr (if name = ''/path/to/AVHRRBUVI01.1985feba.abl'' then None else Some cube), Suc n))
     (\<lambda>p. Some (replicate (4320 * 2160) 0)) (Str ''some-filename'') (None :: unit option) (0::nat)
   = ([cube_of (\<lambda>p. Some (replicate (4320 * 2160) 0)) ''/path/to/AVHRRBUVI01.1985feba.abl'',
       cube_of (\<lambda>p. Some (replicate (4320 * 2160) 0)) ''/another/AVHRRBUVI01.1985febb.abf''],
      None, 0)
 \<and> load_cubes
     (\<lambda>s. if s = ''some-filename''
           then [''/path/to/AVHRRBUVI01.1985feba.abl'', ''/another/AVHRRBUVI01.1985febb.abf'']
           else [])
     (\<lambda>cb cube field name n.
         (Inr (if name = ''/path/to/AVHRRBUVI01.1985feba.abl'' then None else Some cube), Suc n))
     (\<lambda>p. Some (replicate (4320 * 2160) 0)) (Str ''some-filename'') (Some ()) (0::nat)
   = ([cube_of (\<lambda>p. Some (replicate (4320 * 2160) 0)) ''/another/AVHRRBUVI01.1985febb.abf''],
      None, 2)"
proof -
  let ?f1 = "''/path/to/AVHRRBUVI01.1985feba.abl''"
  let ?f2 = "''/another/AVHRRBUVI01.1985febb.abf''"
  let ?glob = "\<lambda>s. if s = ''some-filename'' then [?f1, ?f2] else []"
  let ?fs = "\<lambda>p::string. Some (replicate (4320 * 2160) (0::u8))"
  let ?rc = "\<lambda>(cb::unit) (cube::Cube) (field::ABFField) name (n::nat).
               (Inr (if name = ?f1 then None else Some cube) :: error + Cube option, Suc n)"
  have files: "concat (map ?glob [''some-filename'']) = [?f1, ?f2]" by simp
  have h: "\<forall>name \<in> set (concat (map ?glob [''some-filename''])). \<not> isl (decode ?fs name)"
    unfolding files using two_files_decode by simp
  have calls: "call_each (\<lambda>name. ?rc () (cube_of ?fs name) (field_of ?fs name) name)
      (concat (map ?glob [''some-filename''])) 0 = ([Inr None, Inr (Some (cube_of ?fs ?f2))], 2)"
    unfolding files by simp
  note th = load_cubes_yields [OF h, where rc = ?rc and spec = "''some-filename''" and st = 0
      and c = "()"]
  from th [where cb = "None :: unit option"]
  have a: "load_cubes ?glob ?rc ?fs (Str ''some-filename'') (None :: unit option) 0
      = ([cube_of ?fs ?f1, cube_of ?fs ?f2], None, 0)"
    unfolding files by simp
  from th [where cb = "Some ()"] calls
  have b: "load_cubes ?glob ?rc ?fs (Str ''some-filename'') (Some ()) 0
      = ([cube_of ?fs ?f2], None, 2)"
    unfolding files by simp
  from a b show ?thesis by blast
qed

subsection \<open>Counting days\<close>

text \<open>
  The ordinal of \<^verbatim>\<open>datetime\<close> less one is the number of days since 0001-01-01: the
  closed formula for the days before a year adds up the lengths of the years before it,
  and the table of the days before a month adds up the lengths of the months before it.
\<close>

lemma div_step:
  fixes y k :: int
  assumes "0 < k"
  shows "y div k = (y - 1) div k + (if y mod k = 0 then 1 else 0)"
proof (cases "y mod k = 0")
  case True
  then have "y = k * (y div k)" by auto
  then have "y - 1 = k * (y div k - 1) + (k - 1)"
    by (simp only: right_diff_distrib)
  from int_div_pos_eq [OF this] assms have "(y - 1) div k = y div k - 1" by simp
  with True show ?thesis by simp
next
  case False
  have r: "0 \<le> y mod k" "y mod k < k" using assms by simp_all
  with False have p: "0 \<le> y mod k - 1" by simp
  have "y = k * (y div k) + y mod k" by simp
  then have e: "y - 1 = k * (y div k) + (y mod k - 1)" by linarith
  from r have "y mod k - 1 < k" by simp
  from int_div_pos_eq [OF e p this] have "(y - 1) div k = y div k" .
  with False show ?thesis by simp
qed

lemma mod_100_4: "(y::int) mod 100 = 0 \<Longrightarrow> y mod 4 = 0"
proof -
  assume a: "y mod 100 = 0"
  have "y mod 4 = y mod 100 mod 4" by (simp add: mod_mod_cancel)
  with a show ?thesis by simp
qed

lemma mod_400_100: "(y::int) mod 400 = 0 \<Longrightarrow> y mod 100 = 0"
proof -
  assume a: "y mod 400 = 0"
  have "y mod 100 = y mod 400 mod 100" by (simp add: mod_mod_cancel)
  with a show ?thesis by simp
qed

lemma days_before_next_year:
  "days_before_year (y + 1) = days_before_year y + year_length y"
proof -
  define a b c where "a = (y - 1) div 4" and "b = (y - 1) div 100" and "c = (y - 1) div 400"
  have d4: "y div 4 = a + (if y mod 4 = 0 then 1 else 0)"
    unfolding a_def by (rule div_step) simp
  have d100: "y div 100 = b + (if y mod 100 = 0 then 1 else 0)"
    unfolding b_def by (rule div_step) simp
  have d400: "y div 400 = c + (if y mod 400 = 0 then 1 else 0)"
    unfolding c_def by (rule div_step) simp
  have l: "days_before_year (y + 1) = y * 365 + y div 4 - y div 100 + y div 400"
    by (simp add: days_before_year_def Let_def)
  have r: "days_before_year y = (y - 1) * 365 + a - b + c"
    by (simp add: days_before_year_def Let_def a_def b_def c_def)
  show ?thesis
  proof (cases "y mod 4 = 0")
    case False
    with mod_100_4 [of y] mod_400_100 [of y] have "y mod 100 \<noteq> 0" "y mod 400 \<noteq> 0" by auto
    with False d4 d100 d400 have "y div 4 = a" "y div 100 = b" "y div 400 = c"
      "year_length y = 365" by (simp_all add: year_length_def)
    with l r show ?thesis by (simp add: algebra_simps)
  next
    case True
    show ?thesis
    proof (cases "y mod 100 = 0")
      case False
      with mod_400_100 [of y] have "y mod 400 \<noteq> 0" by auto
      with True False d4 d100 d400 have "y div 4 = a + 1" "y div 100 = b" "y div 400 = c"
        "year_length y = 366" by (simp_all add: year_length_def)
      with l r show ?thesis by (simp add: algebra_simps)
    next
      case h: True
      show ?thesis
      proof (cases "y mod 400 = 0")
        case False
        with True h d4 d100 d400 have "y div 4 = a + 1" "y div 100 = b + 1" "y div 400 = c"
          "year_length y = 365" by (simp_all add: year_length_def)
        with l r show ?thesis by (simp add: algebra_simps)
      next
        case q: True
        with True h d4 d100 d400 have "y div 4 = a + 1" "y div 100 = b + 1"
          "y div 400 = c + 1" "year_length y = 366" by (simp_all add: year_length_def)
        with l r show ?thesis by (simp add: algebra_simps)
      qed
    qed
  qed
qed

lemma days_before_year_count:
  assumes "1 \<le> y"
  shows "days_before_year y = (\<Sum>y' \<leftarrow> [1..y - 1]. year_length y')"
proof -
  have "days_before_year (int n + 1) = (\<Sum>y' \<leftarrow> [1..int n]. year_length y')" for n
  proof (induction n)
    case 0
    show ?case by (simp add: days_before_year_def)
  next
    case (Suc n)
    have "[1..int (Suc n)] = [1..int n] @ [int n + 1]"
      using upto_rec2 [of 1 "int (Suc n)"] by simp
    moreover have "days_before_year (int (Suc n) + 1)
        = days_before_year (int n + 1) + year_length (int n + 1)"
      using days_before_next_year [of "int n + 1"] by (simp add: add.commute add.left_commute)
    ultimately show ?case using Suc by simp
  qed
  from this [of "nat (y - 1)"] assms show ?thesis by simp
qed

lemma days_before_month_count:
  assumes "1 \<le> m" and "m \<le> 12"
  shows "days_before_month y m = (\<Sum>m' \<leftarrow> [1..m - 1]. last_day_of_month y m')"
  using month_cases [OF assms]
  by (elim disjE)
     (simp_all add: days_before_month_def DAYS_BEFORE_MONTH_def isleap_def last_day_of_month_def
        upto.simps)

lemma year_length_months:
  "year_length y = (\<Sum>m' \<leftarrow> [1..12]. last_day_of_month y m')"
  by (simp add: year_length_def last_day_of_month_def upto.simps)

lemma ordinal_counts_days:
  assumes "1 \<le> y" and "1 \<le> m" and "m \<le> 12"
  shows "ordinal_less_one y m d = days_since_epoch y m d"
  using days_before_year_count [OF assms(1)] days_before_month_count [OF assms(2,3), of y]
  by (simp add: ordinal_less_one_def ymd2ord_def days_since_epoch_def)

subsection \<open>The time coordinate\<close>

lemma to_cube_time_year_out_of_range:
  assumes "period self = Some p" and "p = ''a'' \<or> p = ''b''"
    and "year self = Some y" and "month self = Some (Number m)"
    and "1 \<le> m" and "m \<le> 12" and "y < 1 \<or> 9999 < y"
  shows "to_cube_time self = Inl ValueError"
proof -
  have pd: "period_days self = Inr (if p = ''a'' then (1, 15) else (16, last_day_of_month y m))"
    using assms by (auto simp: period_days_def getattr_def month_int_def monthrange_last)
  have "field_date self k = Inl ValueError" for k
    using assms by (auto simp: field_date_def getattr_def month_int_def date_new_def)
  with pd show ?thesis by (simp add: to_cube_time_def)
qed

lemma to_cube_time_raises:
  assumes "getattr_data fs self0 = (Inr d, self)" and "format self = Some fmt"
    and "lower fmt = ''abf'' \<or> lower fmt = ''abl''" and "to_cube_time self = Inl e"
  shows "ABFField_to_cube fs self0 = (Inl e, self)"
  using assms
  by (auto simp: ABFField_to_cube_def to_cube_name_def getattr_def Let_def)

lemma days_examples:
  "days_since_epoch 2020 4 1 = 737515" "days_since_epoch 2020 4 15 = 737529"
  "days_since_epoch 2020 4 16 = 737530" "days_since_epoch 2020 4 30 = 737544"
  "days_since_epoch 1988 2 16 = 725782" "days_since_epoch 1988 2 29 = 725795"
  "days_since_epoch 1985 2 16 = 724687" "days_since_epoch 1985 2 28 = 724699"
  "days_since_epoch 1 1 1 = 0"
  "last_day_of_month 2020 4 = 30" "last_day_of_month 1988 2 = 29"
  "last_day_of_month 1985 2 = 28" "last_day_of_month 1900 2 = 28"
  "last_day_of_month 2000 2 = 29"
proof -
  have e: "days_since_epoch y m d = ymd2ord y m d - 1" if "1 \<le> y" "1 \<le> m" "m \<le> 12" for y m d
    using ordinal_counts_days [OF that, of d] by (simp add: ordinal_less_one_def)
  show "days_since_epoch 2020 4 1 = 737515" "days_since_epoch 2020 4 15 = 737529"
    "days_since_epoch 2020 4 16 = 737530" "days_since_epoch 2020 4 30 = 737544"
    "days_since_epoch 1988 2 16 = 725782" "days_since_epoch 1988 2 29 = 725795"
    "days_since_epoch 1985 2 16 = 724687" "days_since_epoch 1985 2 28 = 724699"
    "days_since_epoch 1 1 1 = 0"
    by (simp_all add: e ymd2ord_def days_before_year_def days_before_month_def
          DAYS_BEFORE_MONTH_def isleap_def)
  show "last_day_of_month 2020 4 = 30" "last_day_of_month 1988 2 = 29"
    "last_day_of_month 1985 2 = 28" "last_day_of_month 1900 2 = 28"
    "last_day_of_month 2000 2 = 29"
    by (simp_all add: last_day_of_month_def)
qed

lemma year_zero_name:
  "basename ''AVHRRBUVI01.0000feba.abl'' = ''AVHRRBUVI01.0000feba.abl''"
  "py_int ''0000'' = Inr 0"
  by (simp_all add: basename_def py_int_def strip_def is_space_def is_digit_def digit_value_def)

lemma year_zero_read:
  "\<exists>g. ABFField_read (\<lambda>p. Some (replicate (4320 * 2160) 0)) (new_field ''AVHRRBUVI01.0000feba.abl'')
     = (Inr (), (new_field ''AVHRRBUVI01.0000feba.abl'')
          \<lparr>version := Some 1, year := Some 0, month := Some (Number 2),
           period := Some ''a'', format := Some ''abl'', data := Some g\<rparr>)"
proof -
  from full_file obtain a where
    a: "reshape (replicate (4320 * 2160) (0::u8)) X_SIZE Y_SIZE = Inr a" ..
  have "ABFField_read (\<lambda>p. Some (replicate (4320 * 2160) 0)) (new_field ''AVHRRBUVI01.0000feba.abl'')
     = (Inr (), (new_field ''AVHRRBUVI01.0000feba.abl'')
          \<lparr>version := Some 1, year := Some 0, month := Some (Number 2),
           period := Some ''a'', format := Some ''abl'',
           data := Some ((masked_greater (flip_rows (transpose_2d a)) 100)\<lparr>fill_value := 255\<rparr>)\<rparr>)"
    using read_result [of "new_field ''AVHRRBUVI01.0000feba.abl''" 1 0 2
        "\<lambda>p. Some (replicate (4320 * 2160) 0)" "replicate (4320 * 2160) 0" a] a
    by (simp add: new_field_attrs year_zero_name example_names py_slice_def month_numbers_table)
  then show ?thesis by blast
qed

text \<open>
  Claim C2 speaks of every field with period \<^verbatim>\<open>a\<close> or \<^verbatim>\<open>b\<close>. The year is the four
  digits of the base name, and \<^verbatim>\<open>datetime.date\<close> takes the years 1 to 9999 only. The
  object of the file name \<^verbatim>\<open>AVHRRBUVI01.0000feba.abl\<close> over a file of 4320 * 2160 bytes
  is read as period \<^verbatim>\<open>a\<close>, year 0, month 2, and \<^verbatim>\<open>to_cube\<close> raises \<^verbatim>\<open>ValueError\<close>: it
  has no time coordinate.
\<close>

theorem to_cube_year_zero_counterexample:
  "ABFField_init ''AVHRRBUVI01.0000feba.abl'' = Inr (new_field ''AVHRRBUVI01.0000feba.abl'')
 \<and> fst (ABFField_to_cube (\<lambda>p. Some (replicate (4320 * 2160) 0))
          (new_field ''AVHRRBUVI01.0000feba.abl'')) = Inl ValueError
 \<and> period (snd (ABFField_to_cube (\<lambda>p. Some (replicate (4320 * 2160) 0))
          (new_field ''AVHRRBUVI01.0000feba.abl''))) = Some ''a''
 \<and> year (snd (ABFField_to_cube (\<lambda>p. Some (replicate (4320 * 2160) 0))
          (new_field ''AVHRRBUVI01.0000feba.abl''))) = Some 0
 \<and> month (snd (ABFField_to_cube (\<lambda>p. Some (replicate (4320 * 2160) 0))
          (new_field ''AVHRRBUVI01.0000feba.abl''))) = Some (Number 2)"
proof -
  let ?fs = "\<lambda>p::string. Some (replicate (4320 * 2160) (0::u8))"
  let ?h = "new_field ''AVHRRBUVI01.0000feba.abl''"
  from year_zero_read obtain g where
    r: "ABFField_read ?fs ?h = (Inr (), ?h\<lparr>version := Some 1, year := Some 0,
          month := Some (Number 2), period := Some ''a'', format := Some ''abl'',
          data := Some g\<rparr>)" ..
  define self where "self = ?h\<lparr>version := Some 1, year := Some 0,
          month := Some (Number 2), period := Some ''a'', format := Some ''abl'',
          data := Some g\<rparr>"
  have gd: "getattr_data ?fs ?h = (Inr g, self)"
    using getattr_data_fresh [of ?h ?fs] r
    by (simp add: self_def new_field_attrs)
  have t: "to_cube_time self = Inl ValueError"
    by (rule to_cube_time_year_out_of_range [where p = "''a''" and y = 0 and m = 2])
       (simp_all add: self_def)
  have f: "format self = Some ''abl''" by (simp add: self_def)
  have "ABFField_to_cube ?fs ?h = (Inl ValueError, self)"
    by (rule to_cube_time_raises [OF gd f _ t]) (simp add: lower_examples)
  then show ?thesis
    by (simp add: init_new_field year_zero_name self_def)
qed

text \<open>
  Claim C2 as amended. Take a field whose data is at hand, whose format tag in lower case
  is \<^verbatim>\<open>abf\<close> or \<^verbatim>\<open>abl\<close>, and whose month is a number from 1 to 12, as \<^verbatim>\<open>_read\<close> leaves
  it. When the year is from 1 to 9999, \<^verbatim>\<open>to_cube\<close> returns a cube with one scalar
  coordinate, the time: for period \<^verbatim>\<open>a\<close> its point is the number of days from 0001-01-01
  to day 1 of the year and month and its bounds are the numbers of days to day 1 and to
  day 15; for period \<^verbatim>\<open>b\<close> the point is the number of days to day 16 and the bounds are
  the numbers of days to day 16 and to the last day of the month, 29 for the February of
  a leap year. For any other year and either period \<^verbatim>\<open>to_cube\<close> raises \<^verbatim>\<open>ValueError\<close>,
  and it returns a cube in no other case.
\<close>

theorem to_cube_time_in_range:
  assumes "getattr_data fs self0 = (Inr d, self)"
    and "format self = Some fmt" and "lower fmt = ''abf'' \<or> lower fmt = ''abl''"
    and "period self = Some p" and "year self = Some y" and "month self = Some (Number m)"
    and "1 \<le> m" and "m \<le> 12"
  shows "(1 \<le> y \<and> y \<le> 9999 \<and> p = ''a'' \<longrightarrow>
            (\<exists>cube. ABFField_to_cube fs self0 = (Inr cube, self)
               \<and> aux_coords cube =
                   [time_coord (days_since_epoch y m 1) (days_since_epoch y m 15)]))
       \<and> (1 \<le> y \<and> y \<le> 9999 \<and> p = ''b'' \<longrightarrow>
            (\<exists>cube. ABFField_to_cube fs self0 = (Inr cube, self)
               \<and> aux_coords cube =
                   [time_coord (days_since_epoch y m 16)
                      (days_since_epoch y m (last_day_of_month y m))]))
       \<and> ((y < 1 \<or> 9999 < y) \<and> (p = ''a'' \<or> p = ''b'') \<longrightarrow>
            ABFField_to_cube fs self0 = (Inl ValueError, self))
       \<and> (\<forall>cube. fst (ABFField_to_cube fs self0) = Inr cube \<longrightarrow>
            1 \<le> y \<and> y \<le> 9999 \<and> (p = ''a'' \<or> p = ''b''))"
proof -
  have ok: "\<exists>cube. ABFField_to_cube fs self0 = (Inr cube, self)
      \<and> aux_coords cube =
          [if p = ''a'' then time_coord (days_since_epoch y m 1) (days_since_epoch y m 15)
           else time_coord (days_since_epoch y m 16)
                  (days_since_epoch y m (last_day_of_month y m))]"
    if y: "1 \<le> y" "y \<le> 9999" and p: "p = ''a'' \<or> p = ''b''"
  proof -
    note c = ordinal_counts_days [OF y(1) assms(7,8)]
    from to_cube_time_valid [OF assms(4) p assms(5,6) y assms(7,8)]
    have t: "to_cube_time self =
        Inr (if p = ''a'' then time_coord (days_since_epoch y m 1) (days_since_epoch y m 15)
             else time_coord (days_since_epoch y m 16)
                    (days_since_epoch y m (last_day_of_month y m)))"
      by (simp add: c)
    from to_cube_valid [OF assms(1,2,3) t] show ?thesis by simp
  qed
  have bad: "ABFField_to_cube fs self0 = (Inl ValueError, self)"
    if "y < 1 \<or> 9999 < y" and p: "p = ''a'' \<or> p = ''b''"
  proof -
    from to_cube_time_year_out_of_range [OF assms(4) p assms(5,6,7,8) that(1)]
    have "to_cube_time self = Inl ValueError" .
    from to_cube_time_raises [OF assms(1,2,3) this] show ?thesis .
  qed
  have only: "1 \<le> y \<and> y \<le> 9999 \<and> (p = ''a'' \<or> p = ''b'')"
    if c: "fst (ABFField_to_cube fs self0) = Inr cube" for cube
  proof -
    obtain s where "ABFField_to_cube fs self0 = (Inr cube, s)"
      using c by (cases "ABFField_to_cube fs self0") simp
    from to_cube_returns [OF this] assms(1) obtain t where "to_cube_time self = Inr t"
      by auto
    from to_cube_time_returns [OF this] assms(4,5) show ?thesis by auto
  qed
  have b: "''b'' \<noteq> ''a''" by simp
  from ok [of] bad only show ?thesis by (auto simp: b)
qed

text \<open>
  April 2020, as in the module's tests: 737515 to 737529, and 737530 to 737544. The second
  half of February in the leap year 1988 ends on day 29, 725782 to 725795, and in 1985 on
  day 28, 724687 to 724699. Year 0 raises.
\<close>

theorem to_cube_time_in_range_witness:
  "(\<exists>cube. ABFField_to_cube Map.empty (mock_field ''abf'' ''a'' 2020 4)
        = (Inr cube, mock_field ''abf'' ''a'' 2020 4)
      \<and> aux_coords cube = [time_coord 737515 737529])
 \<and> (\<exists>cube. ABFField_to_cube Map.empty (mock_field ''abl'' ''b'' 2020 4)
        = (Inr cube, mock_field ''abl'' ''b'' 2020 4)
      \<and> aux_coords cube = [time_coord 737530 737544])
 \<and> (\<exists>cube. ABFField_to_cube Map.empty (mock_field ''abf'' ''b'' 1988 2)
        = (Inr cube, mock_field ''abf'' ''b'' 1988 2)
      \<and> aux_coords cube = [time_coord 725782 725795])
 \<and> (\<exists>cube. ABFField_to_cube Map.empty (mock_field ''abf'' ''b'' 1985 2)
        = (Inr cube, mock_field ''abf'' ''b'' 1985 2)
      \<and> aux_coords cube = [time_coord 724687 724699])
 \<and> ABFField_to_cube Map.empty (mock_field ''abf'' ''a'' 0 2)
      = (Inl ValueError, mock_field ''abf'' ''a'' 0 2)"
proof -
  have b: "''b'' \<noteq> ''a''" by simp
  have 1: "\<exists>cube. ABFField_to_cube Map.empty (mock_field ''abf'' ''a'' 2020 4)
        = (Inr cube, mock_field ''abf'' ''a'' 2020 4)
      \<and> aux_coords cube = [time_coord 737515 737529]"
    using to_cube_time_in_range [OF mock_field_data [of Map.empty "''abf''" "''a''" 2020 4]
        mock_field_attrs(1) _ mock_field_attrs(2,3,4)] by (simp add: lower_examples days_examples)
  have 2: "\<exists>cube. ABFField_to_cube Map.empty (mock_field ''abl'' ''b'' 2020 4)
        = (Inr cube, mock_field ''abl'' ''b'' 2020 4)
      \<and> aux_coords cube = [time_coord 737530 737544]"
    using to_cube_time_in_range [OF mock_field_data [of Map.empty "''abl''" "''b''" 2020 4]
        mock_field_attrs(1) _ mock_field_attrs(2,3,4)] by (simp add: lower_examples days_examples b)
  have 3: "\<exists>cube. ABFField_to_cube Map.empty (mock_field ''abf'' ''b'' 1988 2)
        = (Inr cube, mock_field ''abf'' ''b'' 1988 2)
      \<and> aux_coords cube = [time_coord 725782 725795]"
    using to_cube_time_in_range [OF mock_field_data [of Map.empty "''abf''" "''b''" 1988 2]
        mock_field_attrs(1) _ mock_field_attrs(2,3,4)] by (simp add: lower_examples days_examples b)
  have 4: "\<exists>cube. ABFField_to_cube Map.empty (mock_field ''abf'' ''b'' 1985 2)
        = (Inr cube, mock_field ''abf'' ''b'' 1985 2)
      \<and> aux_coords cube = [time_coord 724687 724699]"
    using to_cube_time_in_range [OF mock_field_data [of Map.empty "''abf''" "''b''" 1985 2]
        mock_field_attrs(1) _ mock_field_attrs(2,3,4)] by (simp add: lower_examples days_examples b)
  have 5: "ABFField_to_cube Map.empty (mock_field ''abf'' ''a'' 0 2)
      = (Inl ValueError, mock_field ''abf'' ''a'' 0 2)"
    using to_cube_time_in_range [OF mock_field_data [of Map.empty "''abf''" "''a''" 0 2]
        mock_field_attrs(1) _ mock_field_attrs(2,3,4)] by (simp add: lower_examples)
  from 1 2 3 4 5 show ?thesis by blast
qed

subsection \<open>Name and units\<close>

lemma upper_case_tags:
  "lower ''ABL'' = ''abl''" "lower ''Abf'' = ''abf''"
  by code_simp+

text \<open>
  Claim C6. Take a field whose data is at hand and whose format tag is \<open>fmt\<close>. When the
  tag in lower case is neither \<^verbatim>\<open>abf\<close> nor \<^verbatim>\<open>abl\<close>, \<^verbatim>\<open>to_cube\<close> raises
  \<^verbatim>\<open>TranslationError\<close> with the message for an unknown format. Whenever it returns a
  cube, the cube is named \<^verbatim>\<open>FAPAR\<close> exactly when the tag in lower case is \<^verbatim>\<open>abf\<close>, it is
  named \<^verbatim>\<open>leaf_area_index\<close> exactly when the tag in lower case is \<^verbatim>\<open>abl\<close>, and its units
  are the percent sign in both cases. It does return such a cube for a tag that is
  \<^verbatim>\<open>abf\<close> or \<^verbatim>\<open>abl\<close> in lower case, whatever the case of its letters, whenever the time
  coordinate can be built; when it cannot, the exception is that of the time coordinate
  and not the one for the format.
\<close>

theorem to_cube_name_units:
  assumes "getattr_data fs self0 = (Inr d, self)" and "format self = Some fmt"
  shows "(lower fmt \<noteq> ''abf'' \<and> lower fmt \<noteq> ''abl'' \<longrightarrow>
            ABFField_to_cube fs self0 =
              (Inl (TranslationError (''Unknown ABF/ABL format: '' @ fmt)), self))
       \<and> (\<forall>cube. fst (ABFField_to_cube fs self0) = Inr cube \<longrightarrow>
            (cube_name cube = Some ''FAPAR'' \<longleftrightarrow> lower fmt = ''abf'')
          \<and> (cube_name cube = Some ''leaf_area_index'' \<longleftrightarrow> lower fmt = ''abl'')
          \<and> cube_units cube = Some ''%'')
       \<and> (\<forall>t. lower fmt = ''abf'' \<and> to_cube_time self = Inr t \<longrightarrow>
            (\<exists>cube. ABFField_to_cube fs self0 = (Inr cube, self)
               \<and> cube_name cube = Some ''FAPAR'' \<and> cube_units cube = Some ''%''))
       \<and> (\<forall>t. lower fmt = ''abl'' \<and> to_cube_time self = Inr t \<longrightarrow>
            (\<exists>cube. ABFField_to_cube fs self0 = (Inr cube, self)
               \<and> cube_name cube = Some ''leaf_area_index'' \<and> cube_units cube = Some ''%''))
       \<and> (\<forall>e. (lower fmt = ''abf'' \<or> lower fmt = ''abl'') \<and> to_cube_time self = Inl e \<longrightarrow>
            ABFField_to_cube fs self0 = (Inl e, self))"
proof (intro conjI impI allI)
  assume "lower fmt \<noteq> ''abf'' \<and> lower fmt \<noteq> ''abl''"
  with assms show "ABFField_to_cube fs self0 =
      (Inl (TranslationError (''Unknown ABF/ABL format: '' @ fmt)), self)"
    by (simp add: to_cube_unknown_format)
next
  fix cube assume c: "fst (ABFField_to_cube fs self0) = Inr cube"
  obtain s where "ABFField_to_cube fs self0 = (Inr cube, s)"
    using c by (cases "ABFField_to_cube fs self0") simp
  from to_cube_returns [OF this] assms
  have n: "cube_name cube = Some (if lower fmt = ''abf'' then ''FAPAR'' else ''leaf_area_index'')"
    and u: "cube_units cube = Some ''%''"
    and f: "lower fmt = ''abf'' \<or> lower fmt = ''abl''"
    by auto
  show "cube_name cube = Some ''FAPAR'' \<longleftrightarrow> lower fmt = ''abf''" using n by auto
  show "cube_name cube = Some ''leaf_area_index'' \<longleftrightarrow> lower fmt = ''abl''" using n f by auto
  show "cube_units cube = Some ''%''" by (rule u)
next
  fix t assume a: "lower fmt = ''abf'' \<and> to_cube_time self = Inr t"
  then have "lower fmt = ''abf'' \<or> lower fmt = ''abl''" and "to_cube_time self = Inr t"
    by simp_all
  from to_cube_valid [OF assms this] a
  show "\<exists>cube. ABFField_to_cube fs self0 = (Inr cube, self)
      \<and> cube_name cube = Some ''FAPAR'' \<and> cube_units cube = Some ''%''"
    by simp
next
  fix t assume a: "lower fmt = ''abl'' \<and> to_cube_time self = Inr t"
  then have "lower fmt = ''abf'' \<or> lower fmt = ''abl''" and "to_cube_time self = Inr t"
    by simp_all
  from to_cube_valid [OF assms this] a
  show "\<exists>cube. ABFField_to_cube fs self0 = (Inr cube, self)
      \<and> cube_name cube = Some ''leaf_area_index'' \<and> cube_units cube = Some ''%''"
    by simp
next
  fix e assume a: "(lower fmt = ''abf'' \<or> lower fmt = ''abl'') \<and> to_cube_time self = Inl e"
  then have "lower fmt = ''abf'' \<or> lower fmt = ''abl''" and "to_cube_time self = Inl e"
    by simp_all
  from to_cube_time_raises [OF assms this]
  show "ABFField_to_cube fs self0 = (Inl e, self)" .
qed

text \<open>
  The tags \<^verbatim>\<open>abf\<close>, \<^verbatim>\<open>ABF\<close>, \<^verbatim>\<open>abl\<close> and \<^verbatim>\<open>ABL\<close> in April 2020, the tag \<^verbatim>\<open>xyz\<close>, and the
  tag \<^verbatim>\<open>ABF\<close> in year 0.
\<close>

theorem to_cube_name_units_witness:
  "(\<exists>cube. ABFField_to_cube Map.empty (mock_field ''abf'' ''a'' 2020 4)
         = (Inr cube, mock_field ''abf'' ''a'' 2020 4)
       \<and> cube_name cube = Some ''FAPAR'' \<and> cube_units cube = Some ''%'')
 \<and> (\<exists>cube. ABFField_to_cube Map.empty (mock_field ''ABF'' ''a'' 2020 4)
         = (Inr cube, mock_field ''ABF'' ''a'' 2020 4)
       \<and> cube_name cube = Some ''FAPAR'' \<and> cube_units cube = Some ''%'')
 \<and> (\<exists>cube. ABFField_to_cube Map.empty (mock_field ''abl'' ''b'' 2020 4)
         = (Inr cube, mock_field ''abl'' ''b'' 2020 4)
       \<and> cube_name cube = Some ''leaf_area_index'' \<and> cube_units cube = Some ''%'')
 \<and> (\<exists>cube. ABFField_to_cube Map.empty (mock_field ''ABL'' ''b'' 2020 4)
         = (Inr cube, mock_field ''ABL'' ''b'' 2020 4)
       \<and> cube_name cube = Some ''leaf_area_index'' \<and> cube_units cube = Some ''%'')
 \<and> ABFField_to_cube Map.empty (mock_field ''xyz'' ''a'' 2020 4) =
      (Inl (TranslationError ''Unknown ABF/ABL format: xyz''), mock_field ''xyz'' ''a'' 2020 4)
 \<and> ABFField_to_cube Map.empty (mock_field ''ABF'' ''a'' 0 2) =
      (Inl ValueError, mock_field ''ABF'' ''a'' 0 2)"
proof -
  obtain t1 where t1: "to_cube_time (mock_field ''abf'' ''a'' 2020 4) = Inr t1"
    using mock_field_time [of "''a''" "''abf''"] by auto
  obtain t2 where t2: "to_cube_time (mock_field ''ABF'' ''a'' 2020 4) = Inr t2"
    using mock_field_time [of "''a''" "''ABF''"] by auto
  obtain t3 where t3: "to_cube_time (mock_field ''abl'' ''b'' 2020 4) = Inr t3"
    using mock_field_time [of "''b''" "''abl''"] by auto
  obtain t4 where t4: "to_cube_time (mock_field ''ABL'' ''b'' 2020 4) = Inr t4"
    using mock_field_time [of "''b''" "''ABL''"] by auto
  have t5: "to_cube_time (mock_field ''ABF'' ''a'' 0 2) = Inl ValueError"
    by (rule to_cube_time_year_out_of_range [where p = "''a''" and y = 0 and m = 2])
       (simp_all add: mock_field_attrs)
  have 1: "\<exists>cube. ABFField_to_cube Map.empty (mock_field ''abf'' ''a'' 2020 4)
         = (Inr cube, mock_field ''abf'' ''a'' 2020 4)
       \<and> cube_name cube = Some ''FAPAR'' \<and> cube_units cube = Some ''%''"
    using to_cube_name_units [OF mock_field_data [of Map.empty "''abf''" "''a''" 2020 4]
        mock_field_attrs(1)] t1
    by (simp add: lower_examples)
  have 2: "\<exists>cube. ABFField_to_cube Map.empty (mock_field ''ABF'' ''a'' 2020 4)
         = (Inr cube, mock_field ''ABF'' ''a'' 2020 4)
       \<and> cube_name cube = Some ''FAPAR'' \<and> cube_units cube = Some ''%''"
    using to_cube_name_units [OF mock_field_data [of Map.empty "''ABF''" "''a''" 2020 4]
        mock_field_attrs(1)] t2
    by (simp add: lower_examples)
  have 3: "\<exists>cube. ABFField_to_cube Map.empty (mock_field ''abl'' ''b'' 2020 4)
         = (Inr cube, mock_field ''abl'' ''b'' 2020 4)
       \<and> cube_name cube = Some ''leaf_area_index'' \<and> cube_units cube = Some ''%''"
    using to_cube_name_units [OF mock_field_data [of Map.empty "''abl''" "''b''" 2020 4]
        mock_field_attrs(1)] t3
    by (simp add: lower_examples)
  have 4: "\<exists>cube. ABFField_to_cube Map.empty (mock_field ''ABL'' ''b'' 2020 4)
         = (Inr cube, mock_field ''ABL'' ''b'' 2020 4)
       \<and> cube_name cube = Some ''leaf_area_index'' \<and> cube_units cube = Some ''%''"
    using to_cube_name_units [OF mock_field_data [of Map.empty "''ABL''" "''b''" 2020 4]
        mock_field_attrs(1)] t4
    by (simp add: upper_case_tags)
  have 5: "ABFField_to_cube Map.empty (mock_field ''xyz'' ''a'' 2020 4) =
      (Inl (TranslationError ''Unknown ABF/ABL format: xyz''), mock_field ''xyz'' ''a'' 2020 4)"
    using to_cube_name_units [OF mock_field_data [of Map.empty "''xyz''" "''a''" 2020 4]
        mock_field_attrs(1)]
    by (simp add: lower_examples)
  have 6: "ABFField_to_cube Map.empty (mock_field ''ABF'' ''a'' 0 2) =
      (Inl ValueError, mock_field ''ABF'' ''a'' 0 2)"
    using to_cube_name_units [OF mock_field_data [of Map.empty "''ABF''" "''a''" 0 2]
        mock_field_attrs(1)] t5
    by (simp add: lower_examples)
  from 1 2 3 4 5 6 show ?thesis by blast
qed

end
